theory Spec2Isabelle
  imports Complex_Main "HOL-Library.Sublist"
begin

section \<open>Python values, dictionaries and exceptions\<close>

text \<open>
  The values that occur in action descriptors, expectation descriptors, summary
  statistics and in the answers of the external libraries. \<open>PObj\<close> is an opaque handle to
  an object of an external library (a WebDriver, a WebElement). A \<open>PFloat\<close> carries the
  real number that a Python float (an IEEE double) stands for.
\<close>

datatype pyval =
    PNone
  | PBool bool
  | PInt int
  | PFloat real
  | PStr string
  | PObj nat

text \<open>
  Float arithmetic rounds the exact result to the nearest double, ties to even:
  \<open>round_double\<close> keeps 53 significant bits. The exponent is not bounded (none of the
  quotients and products of this program leaves the range of the normal doubles).
\<close>

definition round_half_even :: "real \<Rightarrow> int" where
  "round_half_even x =
     (let f = \<lfloor>x\<rfloor>; d = x - of_int f
      in if d < 1 / 2 then f else if 1 / 2 < d then f + 1 else if even f then f else f + 1)"

definition pow2 :: "int \<Rightarrow> real" where
  "pow2 k = (if 0 \<le> k then 2 ^ nat k else 1 / 2 ^ nat (- k))"

definition round_double :: "real \<Rightarrow> real" where
  "round_double x =
     (if x = 0 then 0
      else (let k = \<lfloor>log 2 \<bar>x\<bar>\<rfloor> - 52
            in sgn x * of_int (round_half_even (\<bar>x\<bar> / pow2 k)) * pow2 k))"

text \<open>
  A dict is an association list in insertion order; the value at a key is its first
  binding. \<open>pydict\<close> is a \<open>Dict[str, Any]\<close>, a \<open>field\<close> is one entry of a field list of the
  form configuration (all of its values are strings).
\<close>

type_synonym pydict = "(string \<times> pyval) list"
type_synonym field = "(string \<times> string) list"

datatype exc_class =
    KeyError
  | AttributeError
  | TypeError
  | NoSuchElementException
  | TimeoutException
  | WebDriverException
  | BadRequestKeyError
  | BuildError
  | OtherException

text \<open>An exception (below \<open>Exception\<close>): its class and its \<open>str(e)\<close>.\<close>

datatype py_exception = Exc exc_class string

definition bind_exc :: "'e + 'a \<Rightarrow> ('a \<Rightarrow> 'e + 'b) \<Rightarrow> 'e + 'b" where
  "bind_exc m f = (case m of Inl e \<Rightarrow> Inl e | Inr x \<Rightarrow> f x)"

definition key_error :: "string \<Rightarrow> py_exception" where
  "key_error k = Exc KeyError ([CHR 0x27] @ k @ [CHR 0x27])"

text \<open>\<open>d[k]\<close> and \<open>d.get(k, default)\<close>.\<close>

definition getitem :: "(string \<times> 'v) list \<Rightarrow> string \<Rightarrow> py_exception + 'v" where
  "getitem d k = (case map_of d k of None \<Rightarrow> Inl (key_error k) | Some v \<Rightarrow> Inr v)"

definition dict_get :: "(string \<times> 'v) list \<Rightarrow> string \<Rightarrow> 'v \<Rightarrow> 'v" where
  "dict_get d k dflt = (case map_of d k of None \<Rightarrow> dflt | Some v \<Rightarrow> v)"

fun map_exc :: "('a \<Rightarrow> 'e + 'b) \<Rightarrow> 'a list \<Rightarrow> 'e + 'b list" where
  "map_exc f [] = Inr []"
| "map_exc f (x # xs) =
     bind_exc (f x) (\<lambda>y. bind_exc (map_exc f xs) (\<lambda>ys. Inr (y # ys)))"

section \<open>The data model\<close>

record TestCase =
  name :: string
  url :: string
  actions :: "pydict list"
  expected_results :: "pydict list"
  test_type :: string
  priority :: string
  tags :: "string list option"

record TestResult =
  test_name :: string
  status :: string
  execution_time :: real
  error_message :: string
  screenshot_path :: string
  timestamp :: string

section \<open>TestCaseGenerator\<close>

text \<open>
  The form configuration is a dict with the keys \<open>url\<close>, \<open>submit_button\<close>, \<open>success_url\<close>,
  \<open>required_fields\<close>, \<open>validation_fields\<close> and \<open>all_fields\<close>; a field of the record is
  \<open>None\<close> when the dict has no such key.
\<close>

record form_config =
  cfg_url :: "string option"
  cfg_submit_button :: "string option"
  cfg_success_url :: "string option"
  cfg_required_fields :: "field list option"
  cfg_validation_fields :: "field list option"
  cfg_all_fields :: "field list option"

definition cfg_getitem :: "'v option \<Rightarrow> string \<Rightarrow> py_exception + 'v" where
  "cfg_getitem entry k = (case entry of None \<Rightarrow> Inl (key_error k) | Some v \<Rightarrow> Inr v)"

definition cfg_get :: "'v option \<Rightarrow> 'v \<Rightarrow> 'v" where
  "cfg_get entry dflt = (case entry of None \<Rightarrow> dflt | Some v \<Rightarrow> v)"

text \<open>\<open>field.get('error_selector', f"#{field['name']}-error")\<close>: the default is evaluated first.\<close>

definition error_selector :: "field \<Rightarrow> py_exception + string" where
  "error_selector fld =
     bind_exc (getitem fld ''name'') (\<lambda>n.
       Inr (dict_get fld ''error_selector'' (''#'' @ n @ ''-error'')))"

text \<open>The body of the loop over \<open>required_fields\<close>.\<close>

definition required_field_test :: "form_config \<Rightarrow> field \<Rightarrow> py_exception + TestCase" where
  "required_field_test form_config fld =
     bind_exc (getitem fld ''name'') (\<lambda>n.
     bind_exc (cfg_getitem (cfg_url form_config) ''url'') (\<lambda>u.
     bind_exc (getitem fld ''selector'') (\<lambda>sel.
     bind_exc (cfg_getitem (cfg_submit_button form_config) ''submit_button'') (\<lambda>btn.
     bind_exc (error_selector fld) (\<lambda>err.
       Inr \<lparr>name = ''test_required_field_'' @ n,
            url = u,
            actions =
              [[(''action'', PStr ''clear_field''), (''selector'', PStr sel)],
               [(''action'', PStr ''click''), (''selector'', PStr btn)]],
            expected_results =
              [[(''type'', PStr ''element_visible''), (''selector'', PStr err)]],
            test_type = ''validation'',
            priority = ''medium'',
            tags = Some [''form'', ''validation'', ''required'']\<rparr>)))))"

text \<open>
  The body of the loop over \<open>validation_fields\<close>: one test for an email field, one for a
  phone field, none for any other type.
\<close>

definition typed_validation_test ::
  "form_config \<Rightarrow> field \<Rightarrow> string \<Rightarrow> string \<Rightarrow> string \<Rightarrow> py_exception + TestCase" where
  "typed_validation_test form_config fld kind bad_value tag =
     bind_exc (getitem fld ''name'') (\<lambda>n.
     bind_exc (cfg_getitem (cfg_url form_config) ''url'') (\<lambda>u.
     bind_exc (getitem fld ''selector'') (\<lambda>sel.
     bind_exc (cfg_getitem (cfg_submit_button form_config) ''submit_button'') (\<lambda>btn.
     bind_exc (error_selector fld) (\<lambda>err.
       Inr \<lparr>name = ''test_'' @ kind @ ''_validation_'' @ n,
            url = u,
            actions =
              [[(''action'', PStr ''input''), (''selector'', PStr sel), (''value'', PStr bad_value)],
               [(''action'', PStr ''click''), (''selector'', PStr btn)]],
            expected_results =
              [[(''type'', PStr ''element_visible''), (''selector'', PStr err)]],
            test_type = ''validation'',
            priority = ''medium'',
            tags = Some [''form'', ''validation'', tag]\<rparr>)))))"

definition validation_field_tests :: "form_config \<Rightarrow> field \<Rightarrow> py_exception + TestCase list" where
  "validation_field_tests form_config fld =
     bind_exc (getitem fld ''type'') (\<lambda>ty.
       if ty = ''email'' then
         bind_exc (typed_validation_test form_config fld ''email'' ''invalid-email'' ''email'')
           (\<lambda>t. Inr [t])
       else if ty = ''phone'' then
         bind_exc (typed_validation_test form_config fld ''phone'' ''123'' ''phone'')
           (\<lambda>t. Inr [t])
       else Inr [])"

text \<open>
  The dict comprehension \<open>valid_data\<close>: the pairs in the order of \<open>all_fields\<close>; a later
  field of the same name overwrites the value, so a key is looked up from the end.
\<close>

definition valid_data_item :: "field \<Rightarrow> py_exception + (string \<times> string)" where
  "valid_data_item fld =
     bind_exc (getitem fld ''name'') (\<lambda>n. Inr (n, dict_get fld ''valid_value'' ''test''))"

definition submission_action :: "(string \<times> string) list \<Rightarrow> field \<Rightarrow> py_exception + pydict" where
  "submission_action valid_data fld =
     bind_exc (getitem fld ''selector'') (\<lambda>sel.
     bind_exc (getitem fld ''name'') (\<lambda>n.
     bind_exc (getitem (rev valid_data) n) (\<lambda>v.
       Inr [(''action'', PStr ''input''), (''selector'', PStr sel), (''value'', PStr v)])))"

definition generate_form_validation_tests :: "form_config \<Rightarrow> py_exception + TestCase list" where
  "generate_form_validation_tests form_config =
     bind_exc (map_exc (required_field_test form_config)
                 (cfg_get (cfg_required_fields form_config) [])) (\<lambda>required.
     bind_exc (map_exc (validation_field_tests form_config)
                 (cfg_get (cfg_validation_fields form_config) [])) (\<lambda>validation.
     bind_exc (map_exc valid_data_item (cfg_get (cfg_all_fields form_config) [])) (\<lambda>valid_data.
     bind_exc (map_exc (submission_action valid_data)
                 (cfg_get (cfg_all_fields form_config) [])) (\<lambda>inputs.
     bind_exc (cfg_getitem (cfg_submit_button form_config) ''submit_button'') (\<lambda>btn.
     bind_exc (cfg_getitem (cfg_url form_config) ''url'') (\<lambda>u.
       Inr (required @ concat validation @
            [\<lparr>name = ''test_successful_form_submission'',
              url = u,
              actions = inputs @ [[(''action'', PStr ''click''), (''selector'', PStr btn)]],
              expected_results =
                [[(''type'', PStr ''url_contains''),
                  (''value'', PStr (cfg_get (cfg_success_url form_config) ''/success''))]],
              test_type = ''functional'',
              priority = ''medium'',
              tags = Some [''form'', ''success'']\<rparr>])))))))"

definition has_tag :: "string \<Rightarrow> TestCase \<Rightarrow> bool" where
  "has_tag t tc = (case tags tc of None \<Rightarrow> False | Some ts \<Rightarrow> t \<in> set ts)"

section \<open>The external world\<close>

text \<open>
  Everything the program does to the browser, the file system, the clock and the log goes
  through libraries that are not part of the repository. A call to one of them is a
  \<open>call\<close>; the world answers with a \<open>response\<close> (a value, or an exception that the
  call raises) that may depend on everything that happened before. The history of
  calls with their answers, and of the log lines written, is the trace. Nothing is
  assumed about the answers: the world is a parameter of every operation.
\<close>

datatype condition =
    PresenceOfElementLocated pyval
  | ElementToBeClickable pyval
  | VisibilityOfElementLocated pyval

datatype call =
    Chrome "string list"
  | ImplicitlyWait pyval int
  | DriverGet pyval string
  | WaitUntil pyval int condition
  | FindElement pyval pyval
  | ElementClear pyval
  | ElementSendKeys pyval pyval
  | ElementClick pyval
  | IsDisplayed pyval
  | ElementText pyval
  | CurrentUrl pyval
  | Title pyval
  | Sleep pyval
  | Makedirs string
  | SaveScreenshot pyval string
  | Quit pyval
  | OpenWrite string string
  | SubprocessRun "string list"
  | PathExists string
  | SendFromDirectory string string

datatype response = Raise py_exception | Return pyval

datatype event = Call call response | LogInfo string | LogError string

type_synonym trace = "event list"

text \<open>
  \<open>respond\<close> answers a call after a history; \<open>clock\<close> is \<open>time.time()\<close>, \<open>now_isoformat\<close> is
  \<open>datetime.now().isoformat()\<close>, \<open>now_strftime\<close> is
  \<open>datetime.now().strftime("%Y%m%d_%H%M%S")\<close>, \<open>str_dict\<close> and \<open>str_int\<close> format a dict
  and an integer inside an f-string, \<open>str_lower\<close> is \<open>str.lower\<close>, \<open>path_join\<close> is
  \<open>os.path.join\<close> and \<open>getcwd\<close> is \<open>os.getcwd()\<close>.
\<close>

record env =
  respond :: "trace \<Rightarrow> call \<Rightarrow> response"
  clock :: "trace \<Rightarrow> real"
  now_isoformat :: "trace \<Rightarrow> string"
  now_strftime :: "trace \<Rightarrow> string"
  str_dict :: "pydict \<Rightarrow> string"
  str_int :: "int \<Rightarrow> string"
  str_lower :: "string \<Rightarrow> string"
  path_join :: "string list \<Rightarrow> string"
  getcwd :: "trace \<Rightarrow> string"

type_synonym 'a io = "trace \<Rightarrow> (py_exception + 'a) \<times> trace"

definition ext_call :: "env \<Rightarrow> call \<Rightarrow> pyval io" where
  "ext_call e c tr =
     (case respond e tr c of
        Raise x \<Rightarrow> (Inl x, tr @ [Call c (Raise x)])
      | Return v \<Rightarrow> (Inr v, tr @ [Call c (Return v)]))"

definition return_io :: "'a \<Rightarrow> 'a io" where
  "return_io x tr = (Inr x, tr)"

definition lift_exc :: "py_exception + 'a \<Rightarrow> 'a io" where
  "lift_exc r tr = (r, tr)"

definition bind_io :: "'a io \<Rightarrow> ('a \<Rightarrow> 'b io) \<Rightarrow> 'b io" where
  "bind_io m f tr = (case m tr of (Inl x, tr') \<Rightarrow> (Inl x, tr') | (Inr v, tr') \<Rightarrow> f v tr')"

definition exc_str :: "py_exception \<Rightarrow> string" where
  "exc_str x = (case x of Exc c msg \<Rightarrow> msg)"

definition exc_is :: "exc_class \<Rightarrow> py_exception \<Rightarrow> bool" where
  "exc_is c x = (case x of Exc c' msg \<Rightarrow> c' = c)"

definition attribute_error :: "string \<Rightarrow> py_exception" where
  "attribute_error a =
     Exc AttributeError
       ([CHR 0x27] @ ''NoneType'' @ [CHR 0x27] @ '' object has no attribute '' @
        [CHR 0x27] @ a @ [CHR 0x27])"

text \<open>\<open>self.driver.a\<close>: an attribute of \<open>None\<close> does not exist.\<close>

definition driver_attr :: "pyval \<Rightarrow> string \<Rightarrow> pyval io" where
  "driver_attr drv a = lift_exc (if drv = PNone then Inl (attribute_error a) else Inr drv)"

definition truthy :: "pyval \<Rightarrow> bool" where
  "truthy v =
     (case v of
        PNone \<Rightarrow> False
      | PBool b \<Rightarrow> b
      | PInt i \<Rightarrow> i \<noteq> 0
      | PFloat x \<Rightarrow> x \<noteq> 0
      | PStr s \<Rightarrow> s \<noteq> []
      | PObj h \<Rightarrow> True)"

text \<open>\<open>a in b\<close> on strings is the substring test; on anything else it is a \<open>TypeError\<close>.\<close>

definition py_in :: "pyval \<Rightarrow> pyval \<Rightarrow> py_exception + bool" where
  "py_in a b =
     (case (a, b) of
        (PStr x, PStr y) \<Rightarrow> Inr (sublist x y)
      | _ \<Rightarrow> Inl (Exc TypeError ''unsupported operand of in''))"

text \<open>\<open>v.lower()\<close>: the method exists on strings only.\<close>

definition py_lower :: "env \<Rightarrow> pyval \<Rightarrow> py_exception + pyval" where
  "py_lower e v =
     (case v of
        PStr s \<Rightarrow> Inr (PStr (str_lower e s))
      | _ \<Rightarrow> Inl (Exc AttributeError ''object has no attribute lower''))"

section \<open>TestExecutor\<close>

record TestExecutor =
  timeout :: int
  driver :: pyval
  headless :: bool
  results :: "TestResult list"

definition TestExecutor_init :: "bool \<Rightarrow> int \<Rightarrow> TestExecutor" where
  "TestExecutor_init hl t = \<lparr>timeout = t, driver = PNone, headless = hl, results = []\<rparr>"

text \<open>
  \<open>setup_driver\<close>: an exception of the constructor or of \<open>implicitly_wait\<close> is not caught.
\<close>

definition setup_driver ::
  "TestExecutor \<Rightarrow> env \<Rightarrow> trace \<Rightarrow> (py_exception + pyval) \<times> TestExecutor \<times> trace" where
  "setup_driver ex e tr =
     (case ext_call e
             (Chrome ((if headless ex then [''--headless''] else []) @
                [''--no-sandbox'', ''--disable-dev-shm-usage'', ''--window-size=1920,1080'']))
             tr of
        (Inl x, tr1) \<Rightarrow> (Inl x, ex, tr1)
      | (Inr d, tr1) \<Rightarrow>
          (case bind_io (driver_attr d ''implicitly_wait'')
                  (\<lambda>_. ext_call e (ImplicitlyWait d (timeout ex))) tr1 of
             (Inl x, tr2) \<Rightarrow> (Inl x, ex\<lparr>driver := d\<rparr>, tr2)
           | (Inr _, tr2) \<Rightarrow> (Inr d, ex\<lparr>driver := d\<rparr>, tr2)))"

text \<open>The body of the \<open>try\<close> of \<open>execute_action\<close>.\<close>

definition execute_action_body :: "TestExecutor \<Rightarrow> env \<Rightarrow> pydict \<Rightarrow> bool io" where
  "execute_action_body ex e action =
     bind_io (lift_exc (getitem action ''action'')) (\<lambda>kind.
       if kind = PStr ''input'' then
         bind_io (lift_exc (getitem action ''selector'')) (\<lambda>sel.
         bind_io (ext_call e (WaitUntil (driver ex) (timeout ex) (PresenceOfElementLocated sel)))
           (\<lambda>element.
         bind_io (ext_call e (ElementClear element)) (\<lambda>_.
         bind_io (lift_exc (getitem action ''value'')) (\<lambda>v.
         bind_io (ext_call e (ElementSendKeys element v)) (\<lambda>_.
           return_io True)))))
       else if kind = PStr ''click'' then
         bind_io (lift_exc (getitem action ''selector'')) (\<lambda>sel.
         bind_io (ext_call e (WaitUntil (driver ex) (timeout ex) (ElementToBeClickable sel)))
           (\<lambda>element.
         bind_io (ext_call e (ElementClick element)) (\<lambda>_.
           return_io True)))
       else if kind = PStr ''clear_field'' then
         bind_io (driver_attr (driver ex) ''find_element'') (\<lambda>drv.
         bind_io (lift_exc (getitem action ''selector'')) (\<lambda>sel.
         bind_io (ext_call e (FindElement drv sel)) (\<lambda>element.
         bind_io (ext_call e (ElementClear element)) (\<lambda>_.
           return_io True))))
       else if kind = PStr ''wait'' then
         bind_io (ext_call e (Sleep (dict_get action ''time'' (PInt 1)))) (\<lambda>_.
           return_io True)
       else return_io True)"

definition execute_action :: "TestExecutor \<Rightarrow> env \<Rightarrow> pydict \<Rightarrow> trace \<Rightarrow> bool \<times> trace" where
  "execute_action ex e action tr =
     (case execute_action_body ex e action tr of
        (Inr b, tr') \<Rightarrow> (b, tr')
      | (Inl x, tr') \<Rightarrow>
          (False,
           tr' @ [LogError (''Action failed: '' @ str_dict e action @ '' - '' @ exc_str x)]))"

text \<open>
  The inner \<open>try\<close> of the \<open>element_not_visible\<close> branch: a \<open>NoSuchElementException\<close> of the
  lookup or of \<open>is_displayed\<close> is the answer \<open>True\<close>; any other exception goes on to the
  outer handler.
\<close>

definition element_not_visible :: "TestExecutor \<Rightarrow> env \<Rightarrow> pydict \<Rightarrow> bool io" where
  "element_not_visible ex e expected tr =
     (case bind_io (driver_attr (driver ex) ''find_element'') (\<lambda>drv.
           bind_io (lift_exc (getitem expected ''selector'')) (\<lambda>sel.
           bind_io (ext_call e (FindElement drv sel)) (\<lambda>element.
           bind_io (ext_call e (IsDisplayed element)) (\<lambda>shown.
             return_io (\<not> truthy shown))))) tr of
        (Inl x, tr') \<Rightarrow> if exc_is NoSuchElementException x then (Inr True, tr') else (Inl x, tr')
      | (Inr b, tr') \<Rightarrow> (Inr b, tr'))"

text \<open>The body of the outer \<open>try\<close> of \<open>verify_result\<close>.\<close>

definition verify_result_body :: "TestExecutor \<Rightarrow> env \<Rightarrow> pydict \<Rightarrow> bool io" where
  "verify_result_body ex e expected =
     bind_io (lift_exc (getitem expected ''type'')) (\<lambda>kind.
       if kind = PStr ''element_visible'' then
         bind_io (lift_exc (getitem expected ''selector'')) (\<lambda>sel.
         bind_io (ext_call e (WaitUntil (driver ex) 5 (VisibilityOfElementLocated sel))) (\<lambda>_.
           return_io True))
       else if kind = PStr ''element_not_visible'' then
         element_not_visible ex e expected
       else if kind = PStr ''url_contains'' then
         bind_io (lift_exc (getitem expected ''value'')) (\<lambda>v.
         bind_io (driver_attr (driver ex) ''current_url'') (\<lambda>drv.
         bind_io (ext_call e (CurrentUrl drv)) (\<lambda>current.
           lift_exc (py_in v current))))
       else if kind = PStr ''title_contains'' then
         bind_io (lift_exc (getitem expected ''value'')) (\<lambda>v.
         bind_io (lift_exc (py_lower e v)) (\<lambda>lv.
         bind_io (driver_attr (driver ex) ''title'') (\<lambda>drv.
         bind_io (ext_call e (Title drv)) (\<lambda>t.
         bind_io (lift_exc (py_lower e t)) (\<lambda>lt.
           lift_exc (py_in lv lt))))))
       else if kind = PStr ''text_contains'' then
         bind_io (driver_attr (driver ex) ''find_element'') (\<lambda>drv.
         bind_io (lift_exc (getitem expected ''selector'')) (\<lambda>sel.
         bind_io (ext_call e (FindElement drv sel)) (\<lambda>element.
         bind_io (lift_exc (getitem expected ''value'')) (\<lambda>v.
         bind_io (ext_call e (ElementText element)) (\<lambda>txt.
           lift_exc (py_in v txt))))))
       else return_io False)"

definition verify_result :: "TestExecutor \<Rightarrow> env \<Rightarrow> pydict \<Rightarrow> trace \<Rightarrow> bool \<times> trace" where
  "verify_result ex e expected tr =
     (case verify_result_body ex e expected tr of
        (Inr b, tr') \<Rightarrow> (b, tr')
      | (Inl x, tr') \<Rightarrow>
          (False,
           tr' @ [LogError (''Verification failed: '' @ str_dict e expected @ '' - '' @ exc_str x)]))"

definition take_screenshot :: "TestExecutor \<Rightarrow> env \<Rightarrow> string \<Rightarrow> trace \<Rightarrow> string \<times> trace" where
  "take_screenshot ex e tname tr =
     (case bind_io (ext_call e (Makedirs ''screenshots'')) (\<lambda>_ tr1.
           bind_io (driver_attr (driver ex) ''save_screenshot'') (\<lambda>drv.
           bind_io (ext_call e (SaveScreenshot drv
                      (path_join e [''screenshots'', tname @ ''_'' @ now_strftime e tr1 @ ''.png''])))
             (\<lambda>_.
             return_io (path_join e [''screenshots'', tname @ ''_'' @ now_strftime e tr1 @ ''.png''])))
             tr1) tr of
        (Inr filepath, tr') \<Rightarrow> (filepath, tr')
      | (Inl x, tr') \<Rightarrow> ('''', tr' @ [LogError (''Screenshot failed: '' @ exc_str x)]))"

text \<open>The \<open>TestResult\<close> that \<open>execute_test\<close> creates before anything is executed.\<close>

definition new_result :: "env \<Rightarrow> TestCase \<Rightarrow> trace \<Rightarrow> TestResult" where
  "new_result e tc tr =
     \<lparr>test_name = name tc, status = ''FAIL'', execution_time = 0, error_message = '''',
      screenshot_path = '''', timestamp = now_isoformat e tr\<rparr>"

text \<open>
  The loop over the actions: \<open>Some a\<close> is the action whose \<open>execute_action\<close> returned
  \<open>False\<close> (the loop is left there), \<open>None\<close> says that the loop came to its end.
\<close>

fun run_actions :: "TestExecutor \<Rightarrow> env \<Rightarrow> pydict list \<Rightarrow> trace \<Rightarrow> pydict option \<times> trace" where
  "run_actions ex e [] tr = (None, tr)"
| "run_actions ex e (a # as) tr =
     (case execute_action ex e a tr of
        (ok, tr') \<Rightarrow> if ok then run_actions ex e as tr' else (Some a, tr'))"

fun run_verifications ::
  "TestExecutor \<Rightarrow> env \<Rightarrow> pydict list \<Rightarrow> trace \<Rightarrow> pydict option \<times> trace" where
  "run_verifications ex e [] tr = (None, tr)"
| "run_verifications ex e (x # xs) tr =
     (case verify_result ex e x tr of
        (ok, tr') \<Rightarrow> if ok then run_verifications ex e xs tr' else (Some x, tr'))"

text \<open>
  \<open>result.error_message = msg; result.screenshot_path = self.take_screenshot(test_case.name)\<close>
\<close>

definition record_failure ::
  "TestExecutor \<Rightarrow> env \<Rightarrow> TestCase \<Rightarrow> TestResult \<Rightarrow> string \<Rightarrow> trace \<Rightarrow> TestResult \<times> trace" where
  "record_failure ex e tc result msg tr =
     (case take_screenshot ex e (name tc) tr of
        (path, tr') \<Rightarrow> (result\<lparr>error_message := msg, screenshot_path := path\<rparr>, tr'))"

text \<open>The log line and \<open>self.driver.get(test_case.url)\<close> at the head of the \<open>try\<close>.\<close>

definition navigate :: "TestExecutor \<Rightarrow> env \<Rightarrow> TestCase \<Rightarrow> pyval io" where
  "navigate ex e tc tr =
     bind_io (driver_attr (driver ex) ''get'') (\<lambda>drv. ext_call e (DriverGet drv (url tc)))
       (tr @ [LogInfo (''Executing test: '' @ name tc)])"

text \<open>The \<open>try\<close> and the \<open>except\<close> of \<open>execute_test\<close>.\<close>

definition execute_test_body ::
  "TestExecutor \<Rightarrow> env \<Rightarrow> TestCase \<Rightarrow> TestResult \<Rightarrow> trace \<Rightarrow> TestResult \<times> trace" where
  "execute_test_body ex e tc result tr =
     (case navigate ex e tc tr of
        (Inl x, tr1) \<Rightarrow>
          (case record_failure ex e tc result (exc_str x) tr1 of
             (r, tr2) \<Rightarrow>
               (r, tr2 @ [LogError (''Test failed: '' @ name tc @ '' - '' @ exc_str x)]))
      | (Inr _, tr1) \<Rightarrow>
          (case run_actions ex e (actions tc) tr1 of
             (Some a, tr2) \<Rightarrow>
               record_failure ex e tc result (''Action failed: '' @ str_dict e a) tr2
           | (None, tr2) \<Rightarrow>
               (case run_verifications ex e (expected_results tc) tr2 of
                  (Some x, tr3) \<Rightarrow>
                    record_failure ex e tc result (''Verification failed: '' @ str_dict e x) tr3
                | (None, tr3) \<Rightarrow>
                    (result\<lparr>status := ''PASS''\<rparr>,
                     tr3 @ [LogInfo (''Test passed: '' @ name tc)]))))"

text \<open>The \<open>finally\<close> sets the duration, a float difference, on every path.\<close>

definition execute_test :: "TestExecutor \<Rightarrow> env \<Rightarrow> TestCase \<Rightarrow> trace \<Rightarrow> TestResult \<times> trace" where
  "execute_test ex e tc tr =
     (case execute_test_body ex e tc (new_result e tc tr) tr of
        (r, tr') \<Rightarrow> (r\<lparr>execution_time := round_double (clock e tr' - clock e tr)\<rparr>, tr'))"

text \<open>
  The loop of \<open>execute_test_suite\<close>. Its first component is the exception that left the
  loop, if one did (only \<open>time.sleep(1)\<close> can raise there).
\<close>

fun suite_loop ::
  "TestExecutor \<Rightarrow> env \<Rightarrow> TestCase list \<Rightarrow> TestResult list \<Rightarrow> trace \<Rightarrow>
   py_exception option \<times> TestResult list \<times> TestExecutor \<times> trace" where
  "suite_loop ex e [] rs tr = (None, rs, ex, tr)"
| "suite_loop ex e (tc # tcs) rs tr =
     (case execute_test ex e tc tr of
        (r, tr1) \<Rightarrow>
          (case ext_call e (Sleep (PInt 1)) tr1 of
             (Inl x, tr2) \<Rightarrow> (Some x, rs @ [r], ex\<lparr>results := results ex @ [r]\<rparr>, tr2)
           | (Inr _, tr2) \<Rightarrow>
               suite_loop (ex\<lparr>results := results ex @ [r]\<rparr>) e tcs (rs @ [r]) tr2))"

text \<open>
  \<open>execute_test_suite\<close>: \<open>setup_driver\<close> stands before the \<open>try\<close>; the \<open>finally\<close> quits the
  driver, and an exception of \<open>quit\<close> replaces the one that was on its way.
\<close>

definition execute_test_suite ::
  "TestExecutor \<Rightarrow> env \<Rightarrow> TestCase list \<Rightarrow> trace \<Rightarrow>
   (py_exception + TestResult list) \<times> TestExecutor \<times> trace" where
  "execute_test_suite ex e test_cases tr =
     (case setup_driver ex e tr of
        (Inl x, ex1, tr1) \<Rightarrow> (Inl x, ex1, tr1)
      | (Inr _, ex1, tr1) \<Rightarrow>
          (case suite_loop ex1 e test_cases [] tr1 of
             (pending, rs, ex2, tr2) \<Rightarrow>
               (if truthy (driver ex2) then
                  (case ext_call e (Quit (driver ex2)) tr2 of
                     (Inl x, tr3) \<Rightarrow> (Inl x, ex2, tr3)
                   | (Inr _, tr3) \<Rightarrow>
                       (case pending of
                          Some x \<Rightarrow> (Inl x, ex2, tr3)
                        | None \<Rightarrow> (Inr rs, ex2, tr3)))
                else
                  (case pending of
                     Some x \<Rightarrow> (Inl x, ex2, tr2)
                   | None \<Rightarrow> (Inr rs, ex2, tr2)))))"

section \<open>ReportGenerator\<close>

text \<open>
  \<open>float_sum\<close> is the builtin \<open>sum\<close> on a list of floats (how it rounds is the
  interpreter's matter). The quotients and the product are float operations: \<open>len\<close> and
  the counts are integers, which \<open>/\<close> divides with one rounding.
\<close>

definition generate_summary_stats :: "(real list \<Rightarrow> real) \<Rightarrow> TestResult list \<Rightarrow> pydict" where
  "generate_summary_stats float_sum rs =
     (if rs = [] then []
      else
        (let total_time = float_sum (map execution_time rs);
             avg_time = round_double (total_time / real (length rs))
         in [(''total_tests'', PInt (int (length rs))),
             (''passed_tests'', PInt (int (length (filter (\<lambda>r. status r = ''PASS'') rs)))),
             (''failed_tests'', PInt (int (length (filter (\<lambda>r. status r = ''FAIL'') rs)))),
             (''total_execution_time'', PFloat total_time),
             (''average_execution_time'', PFloat avg_time),
             (''pass_rate'',
              PFloat (round_double
                (round_double
                   (real (length (filter (\<lambda>r. status r = ''PASS'') rs)) / real (length rs)) *
                 100)))]))"

section \<open>The web front end\<close>

text \<open>
  The routes that \<open>web_tester.py\<close> declares, in the order of the file: the rule, the
  endpoint (the name of the view function) and the methods.
\<close>

definition routes :: "(string \<times> string \<times> string list) list" where
  "routes = [(''/report'', ''report'', [''GET'']), (''/'', ''index'', [''GET'', ''POST''])]"

definition url_for :: "string \<Rightarrow> py_exception + string" where
  "url_for endpoint =
     (case find (\<lambda>r. fst (snd r) = endpoint) routes of
        None \<Rightarrow> Inl (Exc BuildError endpoint)
      | Some r \<Rightarrow> Inr (fst r))"

record request =
  req_method :: string
  form :: field

text \<open>\<open>int(x)\<close> of a float truncates towards zero.\<close>

definition py_int :: "real \<Rightarrow> int" where
  "py_int x = (if 0 \<le> x then \<lfloor>x\<rfloor> else \<lceil>x\<rceil>)"

definition report :: "env \<Rightarrow> pyval io" where
  "report e = ext_call e (SendFromDirectory ''.'' ''test_report.html'')"

text \<open>
  \<open>index\<close> returns the \<open>report_link\<close> that it hands to the template (\<open>None\<close>: the page shows
  no link). A form without \<open>url\<close> is a \<open>BadRequestKeyError\<close>.
\<close>

definition index :: "env \<Rightarrow> request \<Rightarrow> string option io" where
  "index e req =
     (if req_method req = ''POST'' then
        bind_io (lift_exc (case map_of (form req) ''url'' of
                             None \<Rightarrow> Inl (Exc BadRequestKeyError ''url'')
                           | Some u \<Rightarrow> Inr u)) (\<lambda>u.
        bind_io (ext_call e (OpenWrite ''webtest_url.txt'' u)) (\<lambda>_ tr1.
        bind_io (ext_call e
                   (SubprocessRun
                      [path_join e [getcwd e tr1, ''myenv'', ''Scripts'', ''python.exe''],
                       ''test.py'', ''--test-type'', dict_get (form req) ''test_type'' ''all'']))
          (\<lambda>_.
        bind_io (ext_call e (PathExists ''test_report.html'')) (\<lambda>found tr3.
          if truthy found then
            bind_io (lift_exc (url_for ''report''))
              (\<lambda>link. return_io (Some (link @ ''?t='' @ str_int e (py_int (clock e tr3))))) tr3
          else return_io None tr3)) tr1))
      else return_io None)"

section \<open>Reference behaviour\<close>


text \<open>The events that a run added to the trace, and the events in which a call raised.\<close>

definition new_events :: "trace \<Rightarrow> trace \<Rightarrow> event list" where
  "new_events tr tr' = drop (length tr) tr'"

fun is_raise :: "event \<Rightarrow> bool" where
  "is_raise (Call c (Raise x)) = True"
| "is_raise ev = False"

text \<open>
  The invariant of the computations that the executor is built from: a run only adds
  events to the trace; when it returns a value no call raised among them, and when it
  raises, the only exception that a call raised among them is the one it raises.
\<close>

definition io_ok :: "'a io \<Rightarrow> bool" where
  "io_ok m = (\<forall>tr. \<exists>evs. snd (m tr) = tr @ evs \<and>
      (case fst (m tr) of
         Inr v \<Rightarrow> \<not> list_ex is_raise evs
       | Inl x \<Rightarrow> list_all (\<lambda>ev. is_raise ev \<longrightarrow> (\<exists>c. ev = Call c (Raise x))) evs))"

text \<open>
  A second invariant: every event that a run adds to the trace satisfies a given
  predicate.
\<close>

definition io_only :: "(event \<Rightarrow> bool) \<Rightarrow> 'a io \<Rightarrow> bool" where
  "io_only P m = (\<forall>tr. \<exists>evs. snd (m tr) = tr @ evs \<and> list_all P evs)"

text \<open>
  The events that executing an action of a given kind may add to the trace: the calls of
  its primitive, and the line that the handler logs.
\<close>

definition allowed_event :: "pyval \<Rightarrow> event \<Rightarrow> bool" where
  "allowed_event kind ev =
     (case ev of
        LogError msg \<Rightarrow> True
      | LogInfo msg \<Rightarrow> False
      | Call c r \<Rightarrow>
          (case c of
             WaitUntil d t cond \<Rightarrow>
               (case cond of
                  PresenceOfElementLocated s \<Rightarrow> kind = PStr ''input''
                | ElementToBeClickable s \<Rightarrow> kind = PStr ''click''
                | VisibilityOfElementLocated s \<Rightarrow> False)
           | ElementClear el \<Rightarrow> kind = PStr ''input'' \<or> kind = PStr ''clear_field''
           | ElementSendKeys el v \<Rightarrow> kind = PStr ''input''
           | ElementClick el \<Rightarrow> kind = PStr ''click''
           | FindElement d s \<Rightarrow> kind = PStr ''clear_field''
           | Sleep t \<Rightarrow> kind = PStr ''wait''
           | _ \<Rightarrow> False))"


text \<open>
  A world in which the browser starts and quits and \<open>time.sleep(1)\<close> returns: the calls
  of \<open>execute_test_suite\<close> that stand outside every \<open>try\<close>/\<open>except\<close>.
\<close>

definition browser_available :: "env \<Rightarrow> bool" where
  "browser_available e =
     (\<forall>tr. (\<forall>args. \<exists>h. respond e tr (Chrome args) = Return (PObj h)) \<and>
           (\<forall>d t. \<exists>v. respond e tr (ImplicitlyWait d t) = Return v) \<and>
           (\<exists>v. respond e tr (Sleep (PInt 1)) = Return v) \<and>
           (\<forall>d. \<exists>v. respond e tr (Quit d) = Return v))"

section \<open>Concrete inputs\<close>

text \<open>
  A form with one required field, no validation field and one field to fill in; four
  worlds (every call returns an object; every explicit wait times out; no element is
  ever found; the report file does not exist); an executor whose driver is set up; two
  test cases; a POST of the web form.
\<close>

definition demo_form :: form_config where
  "demo_form =
     \<lparr>cfg_url = Some ''http://x'', cfg_submit_button = Some ''#go'', cfg_success_url = None,
      cfg_required_fields = Some [[(''name'', ''email''), (''selector'', ''#email'')]],
      cfg_validation_fields = None,
      cfg_all_fields =
        Some [[(''name'', ''email''), (''selector'', ''#email''), (''valid_value'', ''a@b'')]]\<rparr>"

definition env_ok :: env where
  "env_ok =
     \<lparr>respond = (\<lambda>tr c. Return (PObj 0)),
      clock = (\<lambda>tr. real (length tr)),
      now_isoformat = (\<lambda>tr. ''2024-01-01T00:00:00''),
      now_strftime = (\<lambda>tr. ''20240101_000000''),
      str_dict = (\<lambda>d. ''{'' @ concat (map fst d) @ ''}''),
      str_int = (\<lambda>i. ''0''),
      str_lower = (\<lambda>s. s),
      path_join = (\<lambda>ps. concat (map (\<lambda>p. ''/'' @ p) ps)),
      getcwd = (\<lambda>tr. ''app'')\<rparr>"

definition env_timeout :: env where
  "env_timeout =
     env_ok\<lparr>respond :=
       (\<lambda>tr c. case c of
          WaitUntil d t cond \<Rightarrow> Raise (Exc TimeoutException ''timeout'')
        | _ \<Rightarrow> Return (PObj 0))\<rparr>"


definition ex_ready :: TestExecutor where
  "ex_ready = \<lparr>timeout = 10, driver = PObj 0, headless = True, results = []\<rparr>"

definition tc_click :: TestCase where
  "tc_click =
     \<lparr>name = ''test_click'', url = ''http://x'',
      actions = [[(''action'', PStr ''click''), (''selector'', PStr ''#go'')],
                 [(''action'', PStr ''wait''), (''time'', PInt 2)]],
      expected_results = [],
      test_type = ''functional'', priority = ''medium'', tags = None\<rparr>"

definition tc_wait :: TestCase where
  "tc_wait =
     \<lparr>name = ''test_wait'', url = ''http://x'',
      actions = [[(''action'', PStr ''wait''), (''time'', PInt 2)]],
      expected_results = [],
      test_type = ''regression'', priority = ''medium'', tags = None\<rparr>"

definition post_request :: request where
  "post_request = \<lparr>req_method = ''POST'', form = [(''url'', ''http://x''), (''test_type'', ''form'')]\<rparr>"

definition env_no_report :: env where
  "env_no_report =
     env_ok\<lparr>respond :=
       (\<lambda>tr c. case c of PathExists p \<Rightarrow> Return (PBool False) | _ \<Rightarrow> Return PNone)\<rparr>"

text \<open>Twenty-five results, seven of them passed.\<close>

definition result_with_status :: "string \<Rightarrow> TestResult" where
  "result_with_status s =
     \<lparr>test_name = ''t'', status = s, execution_time = 1, error_message = '''',
      screenshot_path = '''', timestamp = ''''\<rparr>"

definition results_7_of_25 :: "TestResult list" where
  "results_7_of_25 =
     replicate 7 (result_with_status ''PASS'') @ replicate 18 (result_with_status ''FAIL'')"

section \<open>Properties of the generator\<close>

lemma valid_data_items:
  assumes "list_all (\<lambda>g. map_of g ''name'' \<noteq> None) fs"
  shows "map_exc valid_data_item fs =
         Inr (map (\<lambda>g. (the (map_of g ''name''), dict_get g ''valid_value'' ''test'')) fs)"
  using assms
  by (induction fs) (auto simp: bind_exc_def valid_data_item_def getitem_def)

lemma submission_actions:
  assumes "list_all (\<lambda>g. map_of g ''name'' \<noteq> None \<and> map_of g ''selector'' \<noteq> None) fs"
    and "\<forall>g \<in> set fs. the (map_of g ''name'') \<in> fst ` set vd"
  shows "\<exists>acts. map_exc (submission_action vd) fs = Inr acts"
  using assms
proof (induction fs)
  case Nil
  then show ?case by simp
next
  case (Cons g fs)
  then obtain n sel where g: "map_of g ''name'' = Some n" "map_of g ''selector'' = Some sel"
    by auto
  with Cons.prems have "n \<in> fst ` set (rev vd)" by auto
  then obtain v where "map_of (rev vd) n = Some v"
    by (metis map_of_eq_None_iff not_Some_eq)
  with g Cons show ?case
    by (auto simp: bind_exc_def submission_action_def getitem_def)
qed

lemma required_field_test_ok:
  assumes "cfg_url fc = Some u" "cfg_submit_button fc = Some btn"
    "map_of fld ''name'' = Some n" "map_of fld ''selector'' = Some sel"
  shows "required_field_test fc fld =
    Inr \<lparr>name = ''test_required_field_'' @ n, url = u,
      actions = [[(''action'', PStr ''clear_field''), (''selector'', PStr sel)],
                 [(''action'', PStr ''click''), (''selector'', PStr btn)]],
      expected_results = [[(''type'', PStr ''element_visible''),
         (''selector'', PStr (dict_get fld ''error_selector'' (''#'' @ n @ ''-error'')))]],
      test_type = ''validation'', priority = ''medium'',
      tags = Some [''form'', ''validation'', ''required'']\<rparr>"
  using assms
  by (simp add: required_field_test_def bind_exc_def getitem_def cfg_getitem_def error_selector_def)

text \<open>
  Without the key \<open>url\<close> the generator raises a \<open>KeyError\<close> and yields no test at all: the
  keys \<open>url\<close> and \<open>submit_button\<close>, and \<open>name\<close> and \<open>selector\<close> of every field, are
  mandatory.
\<close>

lemma generate_without_url:
  "cfg_url fc = None \<Longrightarrow> \<exists>x. generate_form_validation_tests fc = Inl x"
  by (cases "map_exc (required_field_test fc) (cfg_get (cfg_required_fields fc) [])";
      cases "map_exc (validation_field_tests fc) (cfg_get (cfg_validation_fields fc) [])";
      cases "map_exc valid_data_item (cfg_get (cfg_all_fields fc) [])";
      cases "map_exc (submission_action
                        (projr (map_exc valid_data_item (cfg_get (cfg_all_fields fc) []))))
                 (cfg_get (cfg_all_fields fc) [])";
      cases "cfg_submit_button fc")
     (auto simp: generate_form_validation_tests_def bind_exc_def cfg_getitem_def)

text \<open>
  C1. A form configuration with exactly one required field and no validation field (the
  mandatory keys being there) yields two test cases, of which exactly one is tagged
  \<open>required\<close>: it is named \<open>test_required_field_<name>\<close>, clears the field at its
  selector, clicks the submit button and expects the error selector (the field's own, or
  \<open>#<name>-error\<close>) to be visible.
\<close>

theorem one_required_field_one_required_test:
  assumes req: "cfg_get (cfg_required_fields fc) [] = [fld]"
    and val: "cfg_get (cfg_validation_fields fc) [] = []"
    and u: "cfg_url fc = Some u"
    and btn: "cfg_submit_button fc = Some btn"
    and n: "map_of fld ''name'' = Some n"
    and sel: "map_of fld ''selector'' = Some sel"
    and allf: "list_all (\<lambda>g. map_of g ''name'' \<noteq> None \<and> map_of g ''selector'' \<noteq> None)
                 (cfg_get (cfg_all_fields fc) [])"
  shows "\<exists>tests. generate_form_validation_tests fc = Inr tests \<and> length tests = 2 \<and>
           filter (has_tag ''required'') tests =
             [\<lparr>name = ''test_required_field_'' @ n, url = u,
               actions = [[(''action'', PStr ''clear_field''), (''selector'', PStr sel)],
                          [(''action'', PStr ''click''), (''selector'', PStr btn)]],
               expected_results = [[(''type'', PStr ''element_visible''),
                 (''selector'', PStr (dict_get fld ''error_selector'' (''#'' @ n @ ''-error'')))]],
               test_type = ''validation'', priority = ''medium'',
               tags = Some [''form'', ''validation'', ''required'']\<rparr>]"
proof -
  let ?fs = "cfg_get (cfg_all_fields fc) []"
  let ?vd = "map (\<lambda>g. (the (map_of g ''name''), dict_get g ''valid_value'' ''test'')) ?fs"
  have names: "list_all (\<lambda>g. map_of g ''name'' \<noteq> None) ?fs"
    using allf by (simp add: list_all_iff)
  have vd: "map_exc valid_data_item ?fs = Inr ?vd"
    by (rule valid_data_items [OF names])
  have "\<forall>g \<in> set ?fs. the (map_of g ''name'') \<in> fst ` set ?vd"
    by force
  from submission_actions [OF allf this]
  obtain acts where acts: "map_exc (submission_action ?vd) ?fs = Inr acts" ..
  show ?thesis
    by (simp add: generate_form_validation_tests_def req val vd acts u btn
        required_field_test_ok [OF u btn n sel] bind_exc_def cfg_getitem_def has_tag_def)
qed

theorem one_required_field_witness:
  "\<exists>tests. generate_form_validation_tests demo_form = Inr tests \<and> length tests = 2 \<and>
     filter (has_tag ''required'') tests =
       [\<lparr>name = ''test_required_field_email'', url = ''http://x'',
         actions = [[(''action'', PStr ''clear_field''), (''selector'', PStr ''#email'')],
                    [(''action'', PStr ''click''), (''selector'', PStr ''#go'')]],
         expected_results = [[(''type'', PStr ''element_visible''),
           (''selector'', PStr ''#email-error'')]],
         test_type = ''validation'', priority = ''medium'',
         tags = Some [''form'', ''validation'', ''required'']\<rparr>]"
  using one_required_field_one_required_test
    [of demo_form "[(''name'', ''email''), (''selector'', ''#email'')]" "''http://x''" "''#go''"
        "''email''" "''#email''"]
  by (simp add: demo_form_def cfg_get_def dict_get_def)

section \<open>Properties of the executor\<close>

subsection \<open>Calls that raise\<close>

lemma io_ok_return [simp]: "io_ok (return_io x)"
  by (simp add: io_ok_def return_io_def)

lemma io_ok_lift [simp]: "io_ok (lift_exc r)"
  by (simp add: io_ok_def lift_exc_def split: sum.split)

lemma io_ok_driver_attr [simp]: "io_ok (driver_attr d a)"
  by (simp add: driver_attr_def)

lemma io_ok_ext_call [simp]: "io_ok (ext_call e c)"
  by (simp add: io_ok_def ext_call_def split: response.split)

lemma io_ok_bind [intro!]:
  assumes "io_ok m" and "\<And>v. io_ok (f v)"
  shows "io_ok (bind_io m f)"
  unfolding io_ok_def
proof
  fix tr
  from assms(1) obtain evs1 where 1: "snd (m tr) = tr @ evs1"
    "(case fst (m tr) of Inr v \<Rightarrow> \<not> list_ex is_raise evs1
       | Inl x \<Rightarrow> list_all (\<lambda>ev. is_raise ev \<longrightarrow> (\<exists>c. ev = Call c (Raise x))) evs1)"
    unfolding io_ok_def by blast
  show "\<exists>evs. snd (bind_io m f tr) = tr @ evs \<and>
      (case fst (bind_io m f tr) of
         Inr v \<Rightarrow> \<not> list_ex is_raise evs
       | Inl x \<Rightarrow> list_all (\<lambda>ev. is_raise ev \<longrightarrow> (\<exists>c. ev = Call c (Raise x))) evs)"
  proof (cases "fst (m tr)")
    case (Inl x)
    with 1 show ?thesis
      by (cases "m tr") (auto simp: bind_io_def)
  next
    case (Inr v)
    from assms(2) [of v] obtain evs2 where 2: "snd (f v (tr @ evs1)) = (tr @ evs1) @ evs2"
      "(case fst (f v (tr @ evs1)) of Inr w \<Rightarrow> \<not> list_ex is_raise evs2
         | Inl x \<Rightarrow> list_all (\<lambda>ev. is_raise ev \<longrightarrow> (\<exists>c. ev = Call c (Raise x))) evs2)"
      unfolding io_ok_def by blast
    from 1 Inr have nr: "\<not> list_ex is_raise evs1" by simp
    have eq: "bind_io m f tr = f v (tr @ evs1)"
      using Inr 1 by (cases "m tr") (auto simp: bind_io_def)
    show ?thesis
      using 2 nr unfolding eq
      by (intro exI [of _ "evs1 @ evs2"]) (auto simp: list_ex_iff list_all_iff split: sum.splits)
  qed
qed

lemma io_ok_if [intro!]: "io_ok a \<Longrightarrow> io_ok b \<Longrightarrow> io_ok (if c then a else b)"
  by simp

lemma io_ok_execute_action_body: "io_ok (execute_action_body ex e action)"
  unfolding execute_action_body_def by (intro io_ok_bind io_ok_if allI) simp_all

lemma bind_io_lift_Inr: "bind_io (lift_exc (Inr v)) f = f v"
  by (rule ext) (simp add: bind_io_def lift_exc_def)



lemma new_events_append [simp]: "new_events tr (tr @ evs) = evs"
  by (simp add: new_events_def)

lemma new_events_append2 [simp]: "new_events tr ((tr @ evs) @ evs') = evs @ evs'"
  by (simp add: new_events_def)


lemma io_ok_extends: "io_ok m \<Longrightarrow> \<exists>evs. snd (m tr) = tr @ evs"
  unfolding io_ok_def by blast

lemma execute_action_extends:
  "\<exists>evs. snd (execute_action ex e action tr) = tr @ evs"
proof -
  from io_ok_extends [OF io_ok_execute_action_body]
  obtain evs where evs: "snd (execute_action_body ex e action tr) = tr @ evs" by blast
  show ?thesis
  proof (cases "execute_action_body ex e action tr")
    case (Pair r tr1)
    with evs have "tr1 = tr @ evs" by simp
    with Pair show ?thesis by (cases r) (simp_all add: execute_action_def)
  qed
qed






lemma unknown_action:
  assumes "map_of action ''action'' = Some kind"
    and "kind \<notin> {PStr ''input'', PStr ''click'', PStr ''clear_field'', PStr ''wait''}"
  shows "execute_action ex e action tr = (True, tr)"
  using assms
  by (simp add: execute_action_def execute_action_body_def getitem_def bind_io_lift_Inr return_io_def)

subsection \<open>The outcome of one test\<close>

lemma record_failure_result:
  "fst (record_failure ex e tc r msg tr) =
     r\<lparr>error_message := msg, screenshot_path := fst (take_screenshot ex e (name tc) tr)\<rparr>"
  "snd (record_failure ex e tc r msg tr) = snd (take_screenshot ex e (name tc) tr)"
  by (simp_all add: record_failure_def split: prod.split)

lemma body_navigate_fails:
  assumes "navigate ex e tc tr = (Inl x, tr1)"
  shows "fst (execute_test_body ex e tc r tr) =
           r\<lparr>error_message := exc_str x,
             screenshot_path := fst (take_screenshot ex e (name tc) tr1)\<rparr>"
  using assms
  by (simp add: execute_test_body_def record_failure_def split: prod.split)

lemma body_action_fails:
  assumes "navigate ex e tc tr = (Inr v, tr1)"
    and "run_actions ex e (actions tc) tr1 = (Some a, tr2)"
  shows "execute_test_body ex e tc r tr =
           record_failure ex e tc r (''Action failed: '' @ str_dict e a) tr2"
  using assms by (simp add: execute_test_body_def)

lemma body_verification_fails:
  assumes "navigate ex e tc tr = (Inr v, tr1)"
    and "run_actions ex e (actions tc) tr1 = (None, tr2)"
    and "run_verifications ex e (expected_results tc) tr2 = (Some x, tr3)"
  shows "execute_test_body ex e tc r tr =
           record_failure ex e tc r (''Verification failed: '' @ str_dict e x) tr3"
  using assms by (simp add: execute_test_body_def)

lemma body_passes:
  assumes "navigate ex e tc tr = (Inr v, tr1)"
    and "run_actions ex e (actions tc) tr1 = (None, tr2)"
    and "run_verifications ex e (expected_results tc) tr2 = (None, tr3)"
  shows "execute_test_body ex e tc r tr =
           (r\<lparr>status := ''PASS''\<rparr>, tr3 @ [LogInfo (''Test passed: '' @ name tc)])"
  using assms by (simp add: execute_test_body_def)

lemma body_outcome:
  "(\<exists>msg path. fst (execute_test_body ex e tc r tr) =
       r\<lparr>error_message := msg, screenshot_path := path\<rparr>) \<or>
   fst (execute_test_body ex e tc r tr) = r\<lparr>status := ''PASS''\<rparr>"
proof (cases "navigate ex e tc tr")
  case (Pair n tr1)
  show ?thesis
  proof (cases n)
    case (Inl x)
    with Pair body_navigate_fails show ?thesis by blast
  next
    case (Inr v)
    note nav = Pair [unfolded Inr]
    show ?thesis
    proof (cases "run_actions ex e (actions tc) tr1")
      case acts: (Pair ra tr2)
      show ?thesis
      proof (cases ra)
        case (Some a)
        from body_action_fails [OF nav acts [unfolded Some]] show ?thesis
          by (simp add: record_failure_result) blast
      next
        case None
        note acts' = acts [unfolded None]
        show ?thesis
        proof (cases "run_verifications ex e (expected_results tc) tr2")
          case vers: (Pair rv tr3)
          show ?thesis
          proof (cases rv)
            case (Some x)
            from body_verification_fails [OF nav acts' vers [unfolded Some]] show ?thesis
              by (simp add: record_failure_result) blast
          next
            case None
            from body_passes [OF nav acts' vers [unfolded None]] show ?thesis by simp
          qed
        qed
      qed
    qed
  qed
qed

lemma execute_test_outcome:
  "(\<exists>msg path. fst (execute_test ex e tc tr) =
       (new_result e tc tr)\<lparr>error_message := msg, screenshot_path := path,
          execution_time := round_double (clock e (snd (execute_test ex e tc tr)) - clock e tr)\<rparr>) \<or>
   fst (execute_test ex e tc tr) =
       (new_result e tc tr)\<lparr>status := ''PASS'',
          execution_time := round_double (clock e (snd (execute_test ex e tc tr)) - clock e tr)\<rparr>"
  using body_outcome [of ex e tc "new_result e tc tr" tr]
  by (cases "execute_test_body ex e tc (new_result e tc tr) tr")
     (auto simp: execute_test_def)

lemma execute_test_name: "test_name (fst (execute_test ex e tc tr)) = name tc"
  using execute_test_outcome [of ex e tc tr] by (auto simp: new_result_def)

lemma execute_test_status:
  "status (fst (execute_test ex e tc tr)) = ''FAIL'' \<or>
   status (fst (execute_test ex e tc tr)) = ''PASS''"
  using execute_test_outcome [of ex e tc tr] by (auto simp: new_result_def)

subsection \<open>The loop over the actions\<close>


subsection \<open>The suite\<close>

lemma suite_loop_names:
  assumes "suite_loop ex e tcs rs tr = (None, rs', ex', tr')"
  shows "map test_name rs' = map test_name rs @ map name tcs"
  using assms
proof (induction tcs arbitrary: ex rs tr)
  case Nil
  then show ?case by simp
next
  case (Cons tc tcs)
  obtain r tr1 where r: "execute_test ex e tc tr = (r, tr1)"
    by (cases "execute_test ex e tc tr")
  obtain s tr2 where s: "ext_call e (Sleep (PInt 1)) tr1 = (s, tr2)"
    by (cases "ext_call e (Sleep (PInt 1)) tr1")
  show ?case
  proof (cases s)
    case (Inl x)
    with r s Cons.prems show ?thesis by simp
  next
    case (Inr v)
    with r s Cons.prems have
      "suite_loop (ex\<lparr>results := results ex @ [r]\<rparr>) e tcs (rs @ [r]) tr2 = (None, rs', ex', tr')"
      by simp
    from Cons.IH [OF this] have "map test_name rs' = map test_name (rs @ [r]) @ map name tcs" .
    moreover from r have "test_name r = name tc"
      using execute_test_name [of ex e tc tr] by simp
    ultimately show ?thesis by simp
  qed
qed

lemma suite_loop_completes:
  assumes "\<And>tr. \<exists>v. respond e tr (Sleep (PInt 1)) = Return v"
  shows "fst (suite_loop ex e tcs rs tr) = None \<and>
         driver (fst (snd (snd (suite_loop ex e tcs rs tr)))) = driver ex"
proof (induction tcs arbitrary: ex rs tr)
  case Nil
  show ?case by simp
next
  case (Cons tc tcs)
  obtain r tr1 where r: "execute_test ex e tc tr = (r, tr1)"
    by (cases "execute_test ex e tc tr")
  from assms [of tr1] obtain v where "respond e tr1 (Sleep (PInt 1)) = Return v" ..
  then have "ext_call e (Sleep (PInt 1)) tr1 = (Inr v, tr1 @ [Call (Sleep (PInt 1)) (Return v)])"
    by (simp add: ext_call_def)
  with r Cons.IH [of "ex\<lparr>results := results ex @ [r]\<rparr>" "rs @ [r]"
                     "tr1 @ [Call (Sleep (PInt 1)) (Return v)]"]
  show ?case by simp
qed

lemma suite_loop_statuses:
  assumes "suite_loop ex e tcs rs tr = (pending, rs', ex', tr')"
    and "\<forall>x \<in> set rs. status x = ''FAIL'' \<or> status x = ''PASS''"
    and "\<forall>x \<in> set (results ex). status x \<in> {''PASS'', ''FAIL'', ''SKIP''}"
  shows "(\<forall>x \<in> set rs'. status x = ''FAIL'' \<or> status x = ''PASS'') \<and>
         (\<forall>x \<in> set (results ex'). status x \<in> {''PASS'', ''FAIL'', ''SKIP''})"
  using assms
proof (induction tcs arbitrary: ex rs tr)
  case Nil
  then show ?case by simp
next
  case (Cons tc tcs)
  obtain r tr1 where r: "execute_test ex e tc tr = (r, tr1)"
    by (cases "execute_test ex e tc tr")
  then have st: "status r = ''FAIL'' \<or> status r = ''PASS''"
    using execute_test_status [of ex e tc tr] by simp
  obtain s tr2 where s: "ext_call e (Sleep (PInt 1)) tr1 = (s, tr2)"
    by (cases "ext_call e (Sleep (PInt 1)) tr1")
  have rs: "\<forall>x \<in> set (rs @ [r]). status x = ''FAIL'' \<or> status x = ''PASS''"
    using Cons.prems(2) st by auto
  have ex: "\<forall>x \<in> set (results (ex\<lparr>results := results ex @ [r]\<rparr>)).
              status x \<in> {''PASS'', ''FAIL'', ''SKIP''}"
    using Cons.prems(3) st by auto
  show ?case
  proof (cases s)
    case (Inl x)
    with r s Cons.prems(1) have "rs' = rs @ [r]" "ex' = ex\<lparr>results := results ex @ [r]\<rparr>"
      by simp_all
    with rs ex show ?thesis by simp
  next
    case (Inr v)
    with r s Cons.prems(1) have
      "suite_loop (ex\<lparr>results := results ex @ [r]\<rparr>) e tcs (rs @ [r]) tr2 =
         (pending, rs', ex', tr')"
      by simp
    from Cons.IH [OF this rs ex] show ?thesis .
  qed
qed

lemma setup_driver_cases:
  "(\<exists>x ex1 tr1. setup_driver ex e tr = (Inl x, ex1, tr1) \<and> results ex1 = results ex) \<or>
   (\<exists>d tr1. setup_driver ex e tr = (Inr d, ex\<lparr>driver := d\<rparr>, tr1))"
  by (simp add: setup_driver_def split: prod.split sum.split)

lemma setup_driver_available:
  assumes "browser_available e"
  shows "\<exists>h tr1. setup_driver ex e tr = (Inr (PObj h), ex\<lparr>driver := PObj h\<rparr>, tr1)"
proof -
  let ?args = "(if headless ex then [''--headless''] else []) @
                [''--no-sandbox'', ''--disable-dev-shm-usage'', ''--window-size=1920,1080'']"
  from assms obtain h where h: "respond e tr (Chrome ?args) = Return (PObj h)"
    unfolding browser_available_def by blast
  let ?tr1 = "tr @ [Call (Chrome ?args) (Return (PObj h))]"
  from assms obtain v where v: "respond e ?tr1 (ImplicitlyWait (PObj h) (timeout ex)) = Return v"
    unfolding browser_available_def by blast
  from h v show ?thesis
    by (simp add: setup_driver_def ext_call_def bind_io_def driver_attr_def lift_exc_def)
qed

subsection \<open>Evaluation on concrete inputs\<close>

lemmas run_defs =
  execute_test_def execute_test_body_def navigate_def new_result_def record_failure_def
  take_screenshot_def execute_action_def execute_action_body_def verify_result_def
  verify_result_body_def element_not_visible_def bind_io_def ext_call_def lift_exc_def
  return_io_def driver_attr_def getitem_def dict_get_def exc_str_def exc_is_def truthy_def

subsection \<open>One result per test case\<close>

text \<open>
  C2. Whenever \<open>execute_test_suite\<close> returns a list of results, it holds exactly one result
  per test case, in the order of the input, the i-th result named after the i-th test
  case; and it does return one whenever the browser is available (otherwise the
  exception of \<open>setup_driver\<close>, \<open>time.sleep\<close> or \<open>quit\<close> leaves the function).
\<close>

theorem suite_one_result_per_test_case:
  "(\<forall>rs ex' tr'. execute_test_suite ex e tcs tr = (Inr rs, ex', tr') \<longrightarrow>
       length rs = length tcs \<and> map test_name rs = map name tcs \<and>
       (\<forall>i < length tcs. test_name (rs ! i) = name (tcs ! i))) \<and>
   (browser_available e \<longrightarrow> (\<exists>rs ex' tr'. execute_test_suite ex e tcs tr = (Inr rs, ex', tr')))"
proof (intro conjI allI impI)
  fix rs ex' tr'
  assume run: "execute_test_suite ex e tcs tr = (Inr rs, ex', tr')"
  have names: "map test_name rs = map name tcs"
  proof -
    from setup_driver_cases [of ex e tr] show ?thesis
    proof (elim disjE exE conjE)
      fix x ex1 tr1
      assume "setup_driver ex e tr = (Inl x, ex1, tr1)"
      with run show ?thesis by (simp add: execute_test_suite_def)
    next
      fix d tr1
      assume su: "setup_driver ex e tr = (Inr d, ex\<lparr>driver := d\<rparr>, tr1)"
      obtain pending rs2 ex2 tr2 where
        loop: "suite_loop (ex\<lparr>driver := d\<rparr>) e tcs [] tr1 = (pending, rs2, ex2, tr2)"
        by (cases "suite_loop (ex\<lparr>driver := d\<rparr>) e tcs [] tr1") auto
      from run su loop have "pending = None \<and> rs2 = rs"
        by (cases pending)
           (auto simp: execute_test_suite_def split: if_splits prod.splits sum.splits)
      with loop suite_loop_names [of "ex\<lparr>driver := d\<rparr>" e tcs "[]" tr1 rs ex2 tr2]
      show ?thesis by simp
    qed
  qed
  from names have len: "length rs = length tcs"
    by (rule map_eq_imp_length_eq)
  show "length rs = length tcs" by (rule len)
  show "map test_name rs = map name tcs" by (rule names)
  fix i assume "i < length tcs"
  with names len show "test_name (rs ! i) = name (tcs ! i)"
    by (metis nth_map)
next
  assume avail: "browser_available e"
  from setup_driver_available [OF avail, of ex tr] obtain h tr1 where
    su: "setup_driver ex e tr = (Inr (PObj h), ex\<lparr>driver := PObj h\<rparr>, tr1)" by blast
  have sleep: "\<And>tr. \<exists>v. respond e tr (Sleep (PInt 1)) = Return v"
    using avail unfolding browser_available_def by blast
  obtain pending rs2 ex2 tr2 where
    loop: "suite_loop (ex\<lparr>driver := PObj h\<rparr>) e tcs [] tr1 = (pending, rs2, ex2, tr2)"
    by (cases "suite_loop (ex\<lparr>driver := PObj h\<rparr>) e tcs [] tr1") auto
  with suite_loop_completes [OF sleep, of "ex\<lparr>driver := PObj h\<rparr>" tcs "[]" tr1]
  have fin: "pending = None" "driver ex2 = PObj h" by simp_all
  from avail obtain v where "respond e tr2 (Quit (PObj h)) = Return v"
    unfolding browser_available_def by blast
  with su loop fin show "\<exists>rs ex' tr'. execute_test_suite ex e tcs tr = (Inr rs, ex', tr')"
    by (simp add: execute_test_suite_def truthy_def ext_call_def)
qed

theorem suite_one_result_per_test_case_witness:
  "\<exists>rs ex' tr'.
     execute_test_suite (TestExecutor_init True 10) env_ok [tc_click, tc_wait] [] = (Inr rs, ex', tr') \<and>
     map test_name rs = [''test_click'', ''test_wait'']"
  using suite_one_result_per_test_case [of "TestExecutor_init True 10" env_ok "[tc_click, tc_wait]" "[]"]
  by (auto simp: browser_available_def env_ok_def tc_click_def tc_wait_def)

subsection \<open>The status of a result\<close>

text \<open>
  C9. The status \<open>SKIP\<close> is never reached: the result of \<open>execute_test\<close> has the status
  \<open>PASS\<close> or \<open>FAIL\<close>, and \<open>PASS\<close> exactly when the navigation, every action and every
  verification succeeded.
\<close>

theorem execute_test_never_skips:
  "status (fst (execute_test ex e tc tr)) \<noteq> ''SKIP'' \<and>
   (status (fst (execute_test ex e tc tr)) = ''PASS'' \<or>
    status (fst (execute_test ex e tc tr)) = ''FAIL'') \<and>
   (status (fst (execute_test ex e tc tr)) = ''PASS'') =
     (\<exists>v tr1 tr2 tr3.
        navigate ex e tc tr = (Inr v, tr1) \<and>
        run_actions ex e (actions tc) tr1 = (None, tr2) \<and>
        run_verifications ex e (expected_results tc) tr2 = (None, tr3))"
proof -
  let ?s = "status (fst (execute_test ex e tc tr))"
  have two: "?s = ''FAIL'' \<or> ?s = ''PASS''" by (rule execute_test_status)
  have body: "?s = status (fst (execute_test_body ex e tc (new_result e tc tr) tr))"
    by (simp add: execute_test_def split: prod.split)
  have iff: "(?s = ''PASS'') =
     (\<exists>v tr1 tr2 tr3.
        navigate ex e tc tr = (Inr v, tr1) \<and>
        run_actions ex e (actions tc) tr1 = (None, tr2) \<and>
        run_verifications ex e (expected_results tc) tr2 = (None, tr3))"
  proof (cases "navigate ex e tc tr")
    case (Pair n tr1)
    show ?thesis
    proof (cases n)
      case (Inl x)
      with Pair body_navigate_fails [of ex e tc tr x tr1 "new_result e tc tr"] body
      show ?thesis by (simp add: new_result_def)
    next
      case (Inr v)
      note nav = Pair [unfolded Inr]
      show ?thesis
      proof (cases "run_actions ex e (actions tc) tr1")
        case acts: (Pair ra tr2)
        show ?thesis
        proof (cases ra)
          case (Some a)
          with nav acts body body_action_fails [OF nav acts [unfolded Some], of "new_result e tc tr"]
          show ?thesis by (simp add: record_failure_result new_result_def)
        next
          case None
          note acts' = acts [unfolded None]
          show ?thesis
          proof (cases "run_verifications ex e (expected_results tc) tr2")
            case vers: (Pair rv tr3)
            show ?thesis
            proof (cases rv)
              case (Some x)
              with nav acts' vers body
                body_verification_fails [OF nav acts' vers [unfolded Some], of "new_result e tc tr"]
              show ?thesis by (simp add: record_failure_result new_result_def)
            next
              case None
              with nav acts' vers body
                body_passes [OF nav acts' vers [unfolded None], of "new_result e tc tr"]
              show ?thesis by simp
            qed
          qed
        qed
      qed
    qed
  qed
  from two have "?s \<noteq> ''SKIP''" by auto
  with two iff show ?thesis by blast
qed

theorem execute_test_never_skips_witness:
  "status (fst (execute_test ex_ready env_timeout tc_click [])) = ''FAIL'' \<and>
   status (fst (execute_test ex_ready env_ok tc_click [])) = ''PASS''"
  using execute_test_never_skips [of ex_ready env_timeout tc_click "[]"]
    execute_test_never_skips [of ex_ready env_ok tc_click "[]"]
  by (simp add: run_defs ex_ready_def env_timeout_def env_ok_def tc_click_def)

text \<open>
  C7. Every result has a status among \<open>PASS\<close>, \<open>FAIL\<close> and \<open>SKIP\<close>: \<open>execute_test\<close>
  creates it with \<open>FAIL\<close>, its body leaves the status or sets it to \<open>PASS\<close>, and so every
  result that \<open>execute_test_suite\<close> returns or stores in the executor has its status in
  the set (the results stored before being so).
\<close>

theorem statuses_in_set:
  assumes stored: "\<forall>x \<in> set (results ex). status x \<in> {''PASS'', ''FAIL'', ''SKIP''}"
  shows "status (new_result e tc tra) = ''FAIL'' \<and>
         (status (fst (execute_test_body exa e tc ra tra)) = status ra \<or>
          status (fst (execute_test_body exa e tc ra tra)) = ''PASS'') \<and>
         (\<forall>x \<in> set (results (fst (snd (execute_test_suite ex e tcs tr)))).
            status x \<in> {''PASS'', ''FAIL'', ''SKIP''}) \<and>
         (\<forall>rs. fst (execute_test_suite ex e tcs tr) = Inr rs \<longrightarrow>
            (\<forall>x \<in> set rs. status x \<in> {''PASS'', ''FAIL'', ''SKIP''}))"
proof (intro conjI)
  show "status (new_result e tc tra) = ''FAIL''" by (simp add: new_result_def)
  from body_outcome [of exa e tc ra tra]
  show "status (fst (execute_test_body exa e tc ra tra)) = status ra \<or>
        status (fst (execute_test_body exa e tc ra tra)) = ''PASS''"
    by auto
  obtain r ex' tr' where run: "execute_test_suite ex e tcs tr = (r, ex', tr')"
    by (cases "execute_test_suite ex e tcs tr") auto
  have both: "(\<forall>x \<in> set (results ex'). status x \<in> {''PASS'', ''FAIL'', ''SKIP''}) \<and>
         (\<forall>rs. r = Inr rs \<longrightarrow> (\<forall>x \<in> set rs. status x \<in> {''PASS'', ''FAIL'', ''SKIP''}))"
  proof -
    from setup_driver_cases [of ex e tr] show ?thesis
    proof (elim disjE exE conjE)
      fix x ex1 tr1
      assume "setup_driver ex e tr = (Inl x, ex1, tr1)" "results ex1 = results ex"
      with run stored show ?thesis by (auto simp: execute_test_suite_def)
    next
      fix d tr1
      assume su: "setup_driver ex e tr = (Inr d, ex\<lparr>driver := d\<rparr>, tr1)"
      obtain pending rs2 ex2 tr2 where
        loop: "suite_loop (ex\<lparr>driver := d\<rparr>) e tcs [] tr1 = (pending, rs2, ex2, tr2)"
        by (cases "suite_loop (ex\<lparr>driver := d\<rparr>) e tcs [] tr1") auto
      from stored have "\<forall>x \<in> set (results (ex\<lparr>driver := d\<rparr>)).
          status x \<in> {''PASS'', ''FAIL'', ''SKIP''}" by simp
      from suite_loop_statuses [OF loop _ this]
      have inv: "\<forall>x \<in> set rs2. status x = ''FAIL'' \<or> status x = ''PASS''"
        "\<forall>x \<in> set (results ex2). status x \<in> {''PASS'', ''FAIL'', ''SKIP''}"
        by simp_all
      from run su loop have "ex' = ex2" "\<forall>rs. r = Inr rs \<longrightarrow> rs = rs2"
        by (auto simp: execute_test_suite_def split: if_splits prod.splits sum.splits option.splits)
      with inv show ?thesis by auto
    qed
  qed
  from both run
  show "\<forall>x \<in> set (results (fst (snd (execute_test_suite ex e tcs tr)))).
          status x \<in> {''PASS'', ''FAIL'', ''SKIP''}"
    by simp
  from both run
  show "\<forall>rs. fst (execute_test_suite ex e tcs tr) = Inr rs \<longrightarrow>
          (\<forall>x \<in> set rs. status x \<in> {''PASS'', ''FAIL'', ''SKIP''})"
    by simp
qed

lemmas suite_defs =
  execute_test_suite_def setup_driver_def TestExecutor_init_def

theorem statuses_in_set_witness:
  "map status (results (fst (snd
      (execute_test_suite (TestExecutor_init True 10) env_timeout [tc_click, tc_wait] [])))) =
     [''FAIL'', ''PASS''] \<and>
   list_all (\<lambda>x. status x \<in> {''PASS'', ''FAIL'', ''SKIP''})
     (results (fst (snd
        (execute_test_suite (TestExecutor_init True 10) env_timeout [tc_click, tc_wait] []))))"
  using statuses_in_set [where ex = "TestExecutor_init True 10" and e = env_timeout
      and tcs = "[tc_click, tc_wait]" and tr = "[]" and tc = tc_click and tra = "[]"
      and exa = ex_ready and ra = "new_result env_timeout tc_click []"]
  by (simp add: suite_defs run_defs env_timeout_def env_ok_def tc_click_def tc_wait_def)

subsection \<open>The fixed set of actions\<close>

lemma io_only_return [simp]: "io_only P (return_io x)"
  by (simp add: io_only_def return_io_def)

lemma io_only_lift [simp]: "io_only P (lift_exc r)"
  by (simp add: io_only_def lift_exc_def)

lemma io_only_driver_attr [simp]: "io_only P (driver_attr d a)"
  by (simp add: driver_attr_def)

lemma io_only_ext_call: "(\<And>r. P (Call c r)) \<Longrightarrow> io_only P (ext_call e c)"
  by (simp add: io_only_def ext_call_def split: response.split)

lemma io_only_bind:
  assumes "io_only P m" and "\<And>v. io_only P (f v)"
  shows "io_only P (bind_io m f)"
  unfolding io_only_def
proof
  fix tr
  from assms(1) obtain evs1 where 1: "snd (m tr) = tr @ evs1" "list_all P evs1"
    unfolding io_only_def by blast
  show "\<exists>evs. snd (bind_io m f tr) = tr @ evs \<and> list_all P evs"
  proof (cases "fst (m tr)")
    case (Inl x)
    with 1 show ?thesis by (cases "m tr") (auto simp: bind_io_def)
  next
    case (Inr v)
    from assms(2) [of v] obtain evs2 where
      2: "snd (f v (tr @ evs1)) = (tr @ evs1) @ evs2" "list_all P evs2"
      unfolding io_only_def by blast
    have "bind_io m f tr = f v (tr @ evs1)"
      using Inr 1 by (cases "m tr") (auto simp: bind_io_def)
    with 1 2 show ?thesis by (intro exI [of _ "evs1 @ evs2"]) simp
  qed
qed


lemma io_onlyD:
  assumes "io_only P m"
  shows "\<exists>evs. snd (m tr) = tr @ evs \<and> list_all P evs"
  using assms unfolding io_only_def by (rule spec)

lemma execute_action_body_only:
  assumes "map_of action ''action'' = Some kind"
  shows "io_only (allowed_event kind) (execute_action_body ex e action)"
  using assms unfolding execute_action_body_def getitem_def
  by (simp add: bind_io_lift_Inr)
     (intro conjI impI io_only_bind io_only_ext_call io_only_return io_only_lift
        io_only_driver_attr; simp add: allowed_event_def)

lemma execute_action_only:
  assumes "map_of action ''action'' = Some kind"
  shows "list_all (allowed_event kind) (new_events tr (snd (execute_action ex e action tr)))"
proof -
  from io_onlyD [OF execute_action_body_only [OF assms], of ex e tr]
  obtain evs where evs: "snd (execute_action_body ex e action tr) = tr @ evs"
    "list_all (allowed_event kind) evs" by blast
  show ?thesis
  proof (cases "execute_action_body ex e action tr")
    case (Pair r tr1)
    with evs have "tr1 = tr @ evs" by simp
    with Pair evs(2) show ?thesis
      by (cases r) (simp_all add: execute_action_def allowed_event_def)
  qed
qed

text \<open>
  C8. The primitive actions are \<open>input\<close>, \<open>click\<close>, \<open>clear_field\<close> and \<open>wait\<close>. For an action
  descriptor whose \<open>action\<close> value is none of them, \<open>execute_action\<close> returns \<open>True\<close> and
  leaves the trace as it was: no call is made and nothing is logged. Whatever the kind,
  \<open>execute_action\<close> adds to the trace nothing but calls of that kind's primitive (and the
  line its handler logs). And it performs the primitive: when no call raises, a \<open>click\<close>
  waits for the element to be clickable and clicks it, an \<open>input\<close> waits for the element,
  clears it and sends the value, a \<open>clear_field\<close> finds the element and clears it, a
  \<open>wait\<close> sleeps for the given time (one second if none is given); each returns \<open>True\<close>
  after exactly these calls.
\<close>

theorem fixed_set_of_actions:
  assumes kind: "map_of action ''action'' = Some kind"
  shows "(kind \<notin> {PStr ''input'', PStr ''click'', PStr ''clear_field'', PStr ''wait''} \<longrightarrow>
            execute_action ex e action tr = (True, tr)) \<and>
         list_all (allowed_event kind) (new_events tr (snd (execute_action ex e action tr))) \<and>
         (kind = PStr ''click'' \<and> map_of action ''selector'' = Some s \<and>
          respond e tr (WaitUntil (driver ex) (timeout ex) (ElementToBeClickable s)) = Return el \<and>
          respond e
            (tr @ [Call (WaitUntil (driver ex) (timeout ex) (ElementToBeClickable s)) (Return el)])
            (ElementClick el) = Return v1 \<longrightarrow>
            execute_action ex e action tr =
              (True,
               tr @ [Call (WaitUntil (driver ex) (timeout ex) (ElementToBeClickable s)) (Return el),
                     Call (ElementClick el) (Return v1)])) \<and>
         (kind = PStr ''input'' \<and> map_of action ''selector'' = Some s \<and>
          map_of action ''value'' = Some x \<and>
          respond e tr (WaitUntil (driver ex) (timeout ex) (PresenceOfElementLocated s)) =
            Return el \<and>
          respond e
            (tr @ [Call (WaitUntil (driver ex) (timeout ex) (PresenceOfElementLocated s))
                     (Return el)])
            (ElementClear el) = Return v1 \<and>
          respond e
            (tr @ [Call (WaitUntil (driver ex) (timeout ex) (PresenceOfElementLocated s))
                     (Return el),
                   Call (ElementClear el) (Return v1)])
            (ElementSendKeys el x) = Return v2 \<longrightarrow>
            execute_action ex e action tr =
              (True,
               tr @ [Call (WaitUntil (driver ex) (timeout ex) (PresenceOfElementLocated s))
                       (Return el),
                     Call (ElementClear el) (Return v1),
                     Call (ElementSendKeys el x) (Return v2)])) \<and>
         (kind = PStr ''clear_field'' \<and> map_of action ''selector'' = Some s \<and>
          driver ex \<noteq> PNone \<and>
          respond e tr (FindElement (driver ex) s) = Return el \<and>
          respond e (tr @ [Call (FindElement (driver ex) s) (Return el)]) (ElementClear el) =
            Return v1 \<longrightarrow>
            execute_action ex e action tr =
              (True,
               tr @ [Call (FindElement (driver ex) s) (Return el),
                     Call (ElementClear el) (Return v1)])) \<and>
         (kind = PStr ''wait'' \<and>
          respond e tr (Sleep (dict_get action ''time'' (PInt 1))) = Return v1 \<longrightarrow>
            execute_action ex e action tr =
              (True, tr @ [Call (Sleep (dict_get action ''time'' (PInt 1))) (Return v1)]))"
proof (intro conjI impI)
  assume "kind \<notin> {PStr ''input'', PStr ''click'', PStr ''clear_field'', PStr ''wait''}"
  with kind show "execute_action ex e action tr = (True, tr)"
    by (rule unknown_action)
next
  show "list_all (allowed_event kind) (new_events tr (snd (execute_action ex e action tr)))"
    by (rule execute_action_only [OF kind])
qed (use kind in \<open>simp_all add: execute_action_def execute_action_body_def getitem_def
      bind_io_def lift_exc_def ext_call_def return_io_def driver_attr_def\<close>)

theorem fixed_set_of_actions_witness:
  "execute_action ex_ready env_ok [(''action'', PStr ''hover''), (''selector'', PStr ''#go'')] [] =
     (True, []) \<and>
   execute_action ex_ready env_ok [(''action'', PStr ''click''), (''selector'', PStr ''#go'')] [] =
     (True,
      [Call (WaitUntil (PObj 0) 10 (ElementToBeClickable (PStr ''#go''))) (Return (PObj 0)),
       Call (ElementClick (PObj 0)) (Return (PObj 0))]) \<and>
   execute_action ex_ready env_ok
     [(''action'', PStr ''input''), (''selector'', PStr ''#name''), (''value'', PStr ''Ada'')] [] =
     (True,
      [Call (WaitUntil (PObj 0) 10 (PresenceOfElementLocated (PStr ''#name''))) (Return (PObj 0)),
       Call (ElementClear (PObj 0)) (Return (PObj 0)),
       Call (ElementSendKeys (PObj 0) (PStr ''Ada'')) (Return (PObj 0))]) \<and>
   execute_action ex_ready env_ok
     [(''action'', PStr ''clear_field''), (''selector'', PStr ''#name'')] [] =
     (True,
      [Call (FindElement (PObj 0) (PStr ''#name'')) (Return (PObj 0)),
       Call (ElementClear (PObj 0)) (Return (PObj 0))]) \<and>
   execute_action ex_ready env_ok [(''action'', PStr ''wait'')] [] =
     (True, [Call (Sleep (PInt 1)) (Return (PObj 0))])"
  using
    fixed_set_of_actions [of "[(''action'', PStr ''hover''), (''selector'', PStr ''#go'')]"
      "PStr ''hover''" ex_ready env_ok "[]"]
    fixed_set_of_actions [of "[(''action'', PStr ''click''), (''selector'', PStr ''#go'')]"
      "PStr ''click''" ex_ready env_ok "[]" "PStr ''#go''" "PObj 0" "PObj 0"]
    fixed_set_of_actions [of
      "[(''action'', PStr ''input''), (''selector'', PStr ''#name''), (''value'', PStr ''Ada'')]"
      "PStr ''input''" ex_ready env_ok "[]" "PStr ''#name''" "PObj 0" "PObj 0" "PStr ''Ada''"
      "PObj 0"]
    fixed_set_of_actions [of "[(''action'', PStr ''clear_field''), (''selector'', PStr ''#name'')]"
      "PStr ''clear_field''" ex_ready env_ok "[]" "PStr ''#name''" "PObj 0" "PObj 0"]
    fixed_set_of_actions [of "[(''action'', PStr ''wait'')]" "PStr ''wait''" ex_ready env_ok "[]"
      _ _ "PObj 0"]
  by (simp add: ex_ready_def env_ok_def dict_get_def)

subsection \<open>Exceptions do not leave the handlers\<close>




subsection \<open>The fields of a result that execution changes\<close>

text \<open>
  C4. Between its creation and its return from \<open>execute_test\<close> a result changes in no
  field other than \<open>status\<close>, \<open>execution_time\<close>, \<open>error_message\<close> and \<open>screenshot_path\<close>:
  \<open>test_name\<close> and \<open>timestamp\<close> stay as created, the status stays \<open>FAIL\<close> or becomes
  \<open>PASS\<close>, and a result that passes keeps the error message and the screenshot path it
  was created with.
\<close>

theorem result_fields_frame:
  "test_name (fst (execute_test ex e tc tr)) = test_name (new_result e tc tr) \<and>
   timestamp (fst (execute_test ex e tc tr)) = timestamp (new_result e tc tr) \<and>
   (\<exists>s t m p.
      fst (execute_test ex e tc tr) =
        (new_result e tc tr)\<lparr>status := s, execution_time := t, error_message := m,
           screenshot_path := p\<rparr> \<and>
      (s = ''FAIL'' \<or> s = ''PASS'') \<and>
      (s = ''PASS'' \<longrightarrow> m = error_message (new_result e tc tr) \<and>
                         p = screenshot_path (new_result e tc tr)))"
proof -
  let ?t = "round_double (clock e (snd (execute_test ex e tc tr)) - clock e tr)"
  from execute_test_outcome [of ex e tc tr] show ?thesis
  proof (elim disjE exE)
    fix msg path
    assume r: "fst (execute_test ex e tc tr) =
       (new_result e tc tr)\<lparr>error_message := msg, screenshot_path := path,
          execution_time := ?t\<rparr>"
    then have "fst (execute_test ex e tc tr) =
        (new_result e tc tr)\<lparr>status := ''FAIL'', execution_time := ?t, error_message := msg,
           screenshot_path := path\<rparr>"
      by (simp add: new_result_def)
    then have "\<exists>s t m p.
      fst (execute_test ex e tc tr) =
        (new_result e tc tr)\<lparr>status := s, execution_time := t, error_message := m,
           screenshot_path := p\<rparr> \<and>
      (s = ''FAIL'' \<or> s = ''PASS'') \<and>
      (s = ''PASS'' \<longrightarrow> m = error_message (new_result e tc tr) \<and>
                         p = screenshot_path (new_result e tc tr))"
      by (intro exI [of _ "''FAIL''"] exI [of _ ?t] exI [of _ msg] exI [of _ path]) simp
    with r show ?thesis by simp
  next
    assume r: "fst (execute_test ex e tc tr) =
       (new_result e tc tr)\<lparr>status := ''PASS'', execution_time := ?t\<rparr>"
    then have "fst (execute_test ex e tc tr) =
        (new_result e tc tr)\<lparr>status := ''PASS'', execution_time := ?t,
           error_message := error_message (new_result e tc tr),
           screenshot_path := screenshot_path (new_result e tc tr)\<rparr>"
      by simp
    then have "\<exists>s t m p.
      fst (execute_test ex e tc tr) =
        (new_result e tc tr)\<lparr>status := s, execution_time := t, error_message := m,
           screenshot_path := p\<rparr> \<and>
      (s = ''FAIL'' \<or> s = ''PASS'') \<and>
      (s = ''PASS'' \<longrightarrow> m = error_message (new_result e tc tr) \<and>
                         p = screenshot_path (new_result e tc tr))"
      by (intro exI [of _ "''PASS''"] exI [of _ ?t]
            exI [of _ "error_message (new_result e tc tr)"]
            exI [of _ "screenshot_path (new_result e tc tr)"]) simp
    with r show ?thesis by simp
  qed
qed

theorem result_fields_frame_witness:
  "test_name (fst (execute_test ex_ready env_ok tc_click [])) = ''test_click'' \<and>
   timestamp (fst (execute_test ex_ready env_ok tc_click [])) = ''2024-01-01T00:00:00'' \<and>
   status (fst (execute_test ex_ready env_ok tc_click [])) = ''PASS'' \<and>
   error_message (fst (execute_test ex_ready env_ok tc_click [])) = '''' "
  using result_fields_frame [of ex_ready env_ok tc_click "[]"]
  by (simp add: run_defs ex_ready_def env_ok_def tc_click_def)

text \<open>
  The error message and the screenshot path do change: a test whose action fails returns
  a result with both filled in.
\<close>

theorem failure_sets_message_and_screenshot:
  "error_message (fst (execute_test ex_ready env_timeout tc_click [])) \<noteq>
     error_message (new_result env_timeout tc_click []) \<and>
   screenshot_path (fst (execute_test ex_ready env_timeout tc_click [])) \<noteq>
     screenshot_path (new_result env_timeout tc_click [])"
  by (simp add: run_defs ex_ready_def env_timeout_def env_ok_def tc_click_def)

subsection \<open>No action is attempted twice\<close>















section \<open>Float arithmetic\<close>

lemma pow2_powr: "pow2 k = 2 powr (real_of_int k)"
proof (cases "0 \<le> k")
  case True
  then have "(2::real) powr (real_of_int k) = 2 ^ nat k"
    by (simp add: powr_real_of_int)
  with True show ?thesis by (simp add: pow2_def)
next
  case False
  then have "(2::real) powr (real_of_int k) = inverse (2 ^ nat (- k))"
    by (simp add: powr_real_of_int)
  with False show ?thesis by (simp add: pow2_def divide_inverse)
qed

lemma round_double_binade:
  assumes "pow2 k \<le> x" and "x < pow2 (k + 1)"
  shows "round_double x = of_int (round_half_even (x / pow2 (k - 52))) * pow2 (k - 52)"
proof -
  have "0 < pow2 k" by (simp add: pow2_powr)
  with assms(1) have pos: "0 < x" by simp
  have "\<lfloor>log 2 x\<rfloor> = k"
    using assms pos by (simp add: floor_log_eq_powr_iff pow2_powr)
  with pos show ?thesis by (simp add: round_double_def Let_def)
qed

lemma round_double_exact:
  assumes "pow2 k \<le> x" and "x < pow2 (k + 1)" and "x / pow2 (k - 52) = of_int m"
  shows "round_double x = of_int m * pow2 (k - 52)"
proof -
  have "round_half_even (of_int m) = m" by (simp add: round_half_even_def)
  with round_double_binade [OF assms(1,2)] assms(3) show ?thesis by simp
qed

lemma round_half_even_up:
  assumes "of_int f + 1 / 2 < y" and "y < of_int f + 1"
  shows "round_half_even y = f + 1"
proof -
  have fl: "\<lfloor>y\<rfloor> = f"
    using assms by (intro floor_unique) linarith+
  have "\<not> y - of_int f < 1 / 2" and "1 / 2 < y - of_int f"
    using assms(1) by linarith+
  then show ?thesis
    by (simp only: round_half_even_def Let_def fl if_True if_False)
qed

lemma round_double_up:
  assumes "pow2 k \<le> x" and "x < pow2 (k + 1)"
    and "of_int f + 1 / 2 < x / pow2 (k - 52)" and "x / pow2 (k - 52) < of_int f + 1"
  shows "round_double x = of_int (f + 1) * pow2 (k - 52)"
  using round_double_binade [OF assms(1,2)] round_half_even_up [OF assms(3,4)] by simp

lemma round_double_0: "round_double 0 = 0"
  by (simp add: round_double_def)

lemma round_double_1: "round_double 1 = 1"
proof -
  have "round_double 1 = of_int 4503599627370496 * pow2 (0 - 52)"
    by (rule round_double_exact) (simp_all add: pow2_def)
  then show ?thesis by (simp add: pow2_def)
qed

lemma round_double_100: "round_double 100 = 100"
proof -
  have "round_double 100 = of_int 7036874417766400 * pow2 (6 - 52)"
    by (rule round_double_exact) (simp_all add: pow2_def)
  then show ?thesis by (simp add: pow2_def)
qed

lemma pass_rate_of_7_25:
  "round_double (round_double (7 / 25) * 100) = 7881299347898369 / 281474976710656"
proof -
  have a: "round_double (7 / 25) = of_int (5044031582654955 + 1) * pow2 (- 2 - 52)"
    by (rule round_double_up) (simp_all add: pow2_def)
  have b: "round_double (of_int (5044031582654955 + 1) * pow2 (- 2 - 52) * 100) =
           of_int (7881299347898368 + 1) * pow2 (4 - 52)"
    by (rule round_double_up) (simp_all add: pow2_def)
  show ?thesis unfolding a b by (simp add: pow2_def)
qed

section \<open>Properties of the report generator\<close>

lemma pass_rate_7_of_25:
  "map_of (generate_summary_stats float_sum results_7_of_25) ''pass_rate'' =
     Some (PFloat (7881299347898369 / 281474976710656))"
  by (simp add: generate_summary_stats_def results_7_of_25_def result_with_status_def Let_def
      pass_rate_of_7_25)

text \<open>
  C10. \<open>generate_summary_stats\<close> returns the empty dict for the empty list; for a list
  that is not empty, \<open>total_tests\<close> is its length, \<open>passed_tests\<close> and \<open>failed_tests\<close> count
  the results with status \<open>PASS\<close> and \<open>FAIL\<close>, and \<open>pass_rate\<close> is the float quotient of the
  number of passed tests by the number of tests, multiplied by 100 as a float: each of
  the two operations rounds to a double. It is exactly 100 when all tests passed and
  exactly 0 when none did.
\<close>

theorem summary_stats:
  "generate_summary_stats float_sum [] = [] \<and>
   map_of (generate_summary_stats float_sum (r # rs)) ''total_tests'' =
     Some (PInt (int (length (r # rs)))) \<and>
   map_of (generate_summary_stats float_sum (r # rs)) ''passed_tests'' =
     Some (PInt (int (length (filter (\<lambda>x. status x = ''PASS'') (r # rs))))) \<and>
   map_of (generate_summary_stats float_sum (r # rs)) ''failed_tests'' =
     Some (PInt (int (length (filter (\<lambda>x. status x = ''FAIL'') (r # rs))))) \<and>
   map_of (generate_summary_stats float_sum (r # rs)) ''pass_rate'' =
     Some (PFloat (round_double
       (round_double (real (length (filter (\<lambda>x. status x = ''PASS'') (r # rs))) /
                      real (length (r # rs))) * 100))) \<and>
   (list_all (\<lambda>x. status x = ''PASS'') (r # rs) \<longrightarrow>
      map_of (generate_summary_stats float_sum (r # rs)) ''pass_rate'' = Some (PFloat 100)) \<and>
   (list_all (\<lambda>x. status x \<noteq> ''PASS'') (r # rs) \<longrightarrow>
      map_of (generate_summary_stats float_sum (r # rs)) ''pass_rate'' = Some (PFloat 0))"
proof (intro conjI impI)
  show "generate_summary_stats float_sum [] = []"
    by (simp add: generate_summary_stats_def)
  show "map_of (generate_summary_stats float_sum (r # rs)) ''total_tests'' =
     Some (PInt (int (length (r # rs))))"
    by (simp add: generate_summary_stats_def Let_def)
  show "map_of (generate_summary_stats float_sum (r # rs)) ''passed_tests'' =
     Some (PInt (int (length (filter (\<lambda>x. status x = ''PASS'') (r # rs)))))"
    by (simp add: generate_summary_stats_def Let_def)
  show "map_of (generate_summary_stats float_sum (r # rs)) ''failed_tests'' =
     Some (PInt (int (length (filter (\<lambda>x. status x = ''FAIL'') (r # rs)))))"
    by (simp add: generate_summary_stats_def Let_def)
  show rate: "map_of (generate_summary_stats float_sum (r # rs)) ''pass_rate'' =
     Some (PFloat (round_double
       (round_double (real (length (filter (\<lambda>x. status x = ''PASS'') (r # rs))) /
                      real (length (r # rs))) * 100)))"
    by (simp add: generate_summary_stats_def Let_def)
  {
    assume "list_all (\<lambda>x. status x = ''PASS'') (r # rs)"
    then have "filter (\<lambda>x. status x = ''PASS'') (r # rs) = r # rs"
      by (simp add: list_all_iff)
    then have "real (length (filter (\<lambda>x. status x = ''PASS'') (r # rs))) /
        real (length (r # rs)) = 1"
      by (simp del: filter.simps)
    then show "map_of (generate_summary_stats float_sum (r # rs)) ''pass_rate'' =
        Some (PFloat 100)"
      unfolding rate by (simp only: round_double_1 round_double_100 mult_1)
  }
  {
    assume "list_all (\<lambda>x. status x \<noteq> ''PASS'') (r # rs)"
    then have "filter (\<lambda>x. status x = ''PASS'') (r # rs) = []"
      by (simp add: list_all_iff filter_empty_conv)
    then have "real (length (filter (\<lambda>x. status x = ''PASS'') (r # rs))) /
        real (length (r # rs)) = 0"
      by (simp del: filter.simps)
    then show "map_of (generate_summary_stats float_sum (r # rs)) ''pass_rate'' =
        Some (PFloat 0)"
      unfolding rate by (simp only: round_double_0 mult_zero_left)
  }
qed

theorem summary_stats_witness:
  "map_of (generate_summary_stats sum_list results_7_of_25) ''total_tests'' = Some (PInt 25) \<and>
   map_of (generate_summary_stats sum_list results_7_of_25) ''passed_tests'' = Some (PInt 7) \<and>
   map_of (generate_summary_stats sum_list results_7_of_25) ''failed_tests'' = Some (PInt 18) \<and>
   map_of (generate_summary_stats sum_list results_7_of_25) ''pass_rate'' =
     Some (PFloat (7881299347898369 / 281474976710656)) \<and>
   map_of (generate_summary_stats sum_list [result_with_status ''PASS''])
     ''pass_rate'' = Some (PFloat 100)"
  using summary_stats [of sum_list "result_with_status ''PASS''"
      "replicate 6 (result_with_status ''PASS'') @ replicate 18 (result_with_status ''FAIL'')"]
    summary_stats [of sum_list "result_with_status ''PASS''" "[]"]
  by (simp add: results_7_of_25_def result_with_status_def eval_nat_numeral pass_rate_of_7_25
      round_double_1 round_double_100)

text \<open>
  The pass rate is not always 100 times the passed tests divided by the tests: for 7
  passed tests of 25 it is 7881299347898369 / 2^48 (which prints as 28.000000000000004),
  not 28.
\<close>

theorem pass_rate_is_rounded:
  "map_of (generate_summary_stats sum_list results_7_of_25) ''passed_tests'' = Some (PInt 7) \<and>
   map_of (generate_summary_stats sum_list results_7_of_25) ''total_tests'' = Some (PInt 25) \<and>
   map_of (generate_summary_stats sum_list results_7_of_25) ''pass_rate'' \<noteq>
     Some (PFloat (100 * 7 / 25))"
  using pass_rate_7_of_25 [of sum_list]
  by (simp add: generate_summary_stats_def results_7_of_25_def result_with_status_def Let_def)

section \<open>Properties of the web front end\<close>

text \<open>
  C3. The front end declares two routes, \<open>/report\<close> and \<open>/\<close>. On a POST with a \<open>url\<close>, when
  none of its calls raises, \<open>index\<close> writes the URL to \<open>webtest_url.txt\<close>, runs the test
  script once, checks once whether \<open>test_report.html\<close> exists, and hands a link to
  \<open>/report\<close> to the page exactly when it does.
\<close>

theorem index_behaviour:
  assumes post: "req_method req = ''POST''"
    and u: "map_of (form req) ''url'' = Some u"
    and written: "respond e tr (OpenWrite ''webtest_url.txt'' u) = Return v1"
    and ran: "respond e (tr @ [Call (OpenWrite ''webtest_url.txt'' u) (Return v1)])
                (SubprocessRun
                   [path_join e [getcwd e (tr @ [Call (OpenWrite ''webtest_url.txt'' u) (Return v1)]),
                                 ''myenv'', ''Scripts'', ''python.exe''],
                    ''test.py'', ''--test-type'', dict_get (form req) ''test_type'' ''all'']) =
              Return v2"
    and checked: "respond e
                (tr @ [Call (OpenWrite ''webtest_url.txt'' u) (Return v1),
                       Call (SubprocessRun
                   [path_join e [getcwd e (tr @ [Call (OpenWrite ''webtest_url.txt'' u) (Return v1)]),
                                 ''myenv'', ''Scripts'', ''python.exe''],
                    ''test.py'', ''--test-type'', dict_get (form req) ''test_type'' ''all''])
                         (Return v2)])
                (PathExists ''test_report.html'') = Return v3"
  shows "map fst routes = [''/report'', ''/''] \<and>
         index e req tr =
           (Inr (if truthy v3
                 then Some (''/report?t='' @ str_int e (py_int (clock e
                   (tr @ [Call (OpenWrite ''webtest_url.txt'' u) (Return v1),
                       Call (SubprocessRun
                   [path_join e [getcwd e (tr @ [Call (OpenWrite ''webtest_url.txt'' u) (Return v1)]),
                                 ''myenv'', ''Scripts'', ''python.exe''],
                    ''test.py'', ''--test-type'', dict_get (form req) ''test_type'' ''all''])
                         (Return v2),
                       Call (PathExists ''test_report.html'') (Return v3)]))))
                 else None),
            tr @ [Call (OpenWrite ''webtest_url.txt'' u) (Return v1),
                       Call (SubprocessRun
                   [path_join e [getcwd e (tr @ [Call (OpenWrite ''webtest_url.txt'' u) (Return v1)]),
                                 ''myenv'', ''Scripts'', ''python.exe''],
                    ''test.py'', ''--test-type'', dict_get (form req) ''test_type'' ''all''])
                         (Return v2),
                       Call (PathExists ''test_report.html'') (Return v3)])"
  using assms
  by (simp add: index_def routes_def url_for_def bind_io_def ext_call_def lift_exc_def
      return_io_def)

theorem index_behaviour_witness:
  "index env_ok post_request [] =
     (Inr (Some ''/report?t=0''),
      [Call (OpenWrite ''webtest_url.txt'' ''http://x'') (Return (PObj 0)),
       Call (SubprocessRun [''/app/myenv/Scripts/python.exe'', ''test.py'', ''--test-type'', ''form''])
         (Return (PObj 0)),
       Call (PathExists ''test_report.html'') (Return (PObj 0))])"
  using index_behaviour [of post_request "''http://x''" env_ok "[]" "PObj 0" "PObj 0" "PObj 0"]
  by (simp add: post_request_def env_ok_def dict_get_def truthy_def)

text \<open>
  There is more than one route; and when the report is not there after the script has
  run, \<open>index\<close> answers without a link after a single look: it does not poll.
\<close>

theorem two_routes_one_check:
  "length routes \<noteq> 1 \<and>
   index env_no_report post_request [] =
     (Inr None,
      [Call (OpenWrite ''webtest_url.txt'' ''http://x'') (Return PNone),
       Call (SubprocessRun [''/app/myenv/Scripts/python.exe'', ''test.py'', ''--test-type'', ''form''])
         (Return PNone),
       Call (PathExists ''test_report.html'') (Return (PBool False))])"
  by (simp add: routes_def index_def post_request_def env_no_report_def env_ok_def dict_get_def
      truthy_def bind_io_def ext_call_def lift_exc_def return_io_def)

end
